theory Spec2Isabelle
  imports Main
begin

section \<open>Text: characters, case conversion, decimal numerals\<close>

text \<open>
  A Python string is modelled by a HOL string whose characters are the Unicode code points
  0 to 255 (Latin-1); text with other code points is outside the model. What is written
  to a file is a sequence of bytes, a HOL string as well, whose characters are then byte
  values. Files are opened as the source opens them, in text mode with the default
  encoding, taken to be UTF-8, and without newline translation.
\<close>

type_synonym pystr = string
type_synonym bytes = string

text \<open>The characters that cannot be written inside a HOL string literal get names.\<close>

definition dquote :: char where "dquote = CHR 0x22"
definition squote :: char where "squote = CHR 0x27"
definition backslash :: char where "backslash = CHR 0x5C"
definition newline :: char where "newline = CHR 0x0A"

text \<open>The UTF-8 encoding of a code point below 256 is itself below 128 and two bytes from
  there on.\<close>

definition utf8_char :: "char \<Rightarrow> bytes" where
  "utf8_char c =
     (if (of_char c :: nat) < 128 then [c]
      else [char_of (192 + (of_char c :: nat) div 64), char_of (128 + (of_char c :: nat) mod 64)])"

definition utf8 :: "pystr \<Rightarrow> bytes" where
  "utf8 s = concat (map utf8_char s)"

text \<open>
  The letters of Latin-1 that have a counterpart of the other case inside Latin-1: the
  ASCII letters, and the accented capitals \<^verbatim>\<open>U+00C0..U+00DE\<close> without the multiplication
  sign \<^verbatim>\<open>U+00D7\<close>, with the small letters \<^verbatim>\<open>U+00E0..U+00FE\<close> without the division sign
  \<^verbatim>\<open>U+00F7\<close>.
\<close>

definition ascii_uppercase :: string where
  "ascii_uppercase = ''ABCDEFGHIJKLMNOPQRSTUVWXYZ''"

definition ascii_lowercase :: string where
  "ascii_lowercase = ''abcdefghijklmnopqrstuvwxyz''"

definition latin1_uppercase :: string where
  "latin1_uppercase =
     [CHR 0xC0, CHR 0xC1, CHR 0xC2, CHR 0xC3, CHR 0xC4, CHR 0xC5, CHR 0xC6, CHR 0xC7,
      CHR 0xC8, CHR 0xC9, CHR 0xCA, CHR 0xCB, CHR 0xCC, CHR 0xCD, CHR 0xCE, CHR 0xCF,
      CHR 0xD0, CHR 0xD1, CHR 0xD2, CHR 0xD3, CHR 0xD4, CHR 0xD5, CHR 0xD6,
      CHR 0xD8, CHR 0xD9, CHR 0xDA, CHR 0xDB, CHR 0xDC, CHR 0xDD, CHR 0xDE]"

definition latin1_lowercase :: string where
  "latin1_lowercase =
     [CHR 0xE0, CHR 0xE1, CHR 0xE2, CHR 0xE3, CHR 0xE4, CHR 0xE5, CHR 0xE6, CHR 0xE7,
      CHR 0xE8, CHR 0xE9, CHR 0xEA, CHR 0xEB, CHR 0xEC, CHR 0xED, CHR 0xEE, CHR 0xEF,
      CHR 0xF0, CHR 0xF1, CHR 0xF2, CHR 0xF3, CHR 0xF4, CHR 0xF5, CHR 0xF6,
      CHR 0xF8, CHR 0xF9, CHR 0xFA, CHR 0xFB, CHR 0xFC, CHR 0xFD, CHR 0xFE]"

text \<open>\<^verbatim>\<open>str.lower()\<close>: a capital is mapped to its small letter, every other character of
  Latin-1 is kept.\<close>

definition lower_char :: "char \<Rightarrow> char" where
  "lower_char c =
     (case map_of (zip (ascii_uppercase @ latin1_uppercase)
                       (ascii_lowercase @ latin1_lowercase)) c of
        Some d \<Rightarrow> d | None \<Rightarrow> c)"

definition py_lower :: "pystr \<Rightarrow> pystr" where
  "py_lower s = map lower_char s"

text \<open>
  \<^verbatim>\<open>str.upper()\<close> leaves Latin-1 for two characters: the micro sign \<^verbatim>\<open>U+00B5\<close> becomes
  \<^verbatim>\<open>U+039C\<close> and \<^verbatim>\<open>U+00FF\<close> becomes \<^verbatim>\<open>U+0178\<close>; and the sharp s \<^verbatim>\<open>U+00DF\<close> becomes the two
  letters \<^verbatim>\<open>SS\<close>. The uppercased text is therefore given by its UTF-8 encoding, which is
  what reaches the file.
\<close>

definition upper_char_utf8 :: "char \<Rightarrow> bytes" where
  "upper_char_utf8 c =
     (if c = CHR 0xB5 then [CHR 0xCE, CHR 0x9C]
      else if c = CHR 0xDF then ''SS''
      else if c = CHR 0xFF then [CHR 0xC5, CHR 0xB8]
      else utf8_char
             (case map_of (zip (ascii_lowercase @ latin1_lowercase)
                               (ascii_uppercase @ latin1_uppercase)) c of
                Some d \<Rightarrow> d | None \<Rightarrow> c))"

definition py_upper_utf8 :: "pystr \<Rightarrow> bytes" where
  "py_upper_utf8 s = concat (map upper_char_utf8 s)"

definition digit_char :: "nat \<Rightarrow> char" where
  "digit_char n = ''0123456789'' ! (n mod 10)"

definition hex_char :: "nat \<Rightarrow> char" where
  "hex_char n = ''0123456789abcdef'' ! (n mod 16)"

fun show_nat :: "nat \<Rightarrow> string" where
  "show_nat n = (if n < 10 then [digit_char n]
                 else show_nat (n div 10) @ [digit_char (n mod 10)])"

declare show_nat.simps [simp del]

text \<open>\<^verbatim>\<open>sep.join(xs)\<close>\<close>

fun join :: "string \<Rightarrow> string list \<Rightarrow> string" where
  "join sep [] = []"
| "join sep [x] = x"
| "join sep (x # y # ys) = x @ sep @ join sep (y # ys)"

text \<open>\<^verbatim>\<open>s.zfill(k)\<close>: pad with zeros on the left up to width \<open>k\<close>.\<close>

definition zfill :: "nat \<Rightarrow> string \<Rightarrow> string" where
  "zfill k s = replicate (k - length s) CHR ''0'' @ s"


section \<open>Python values\<close>

text \<open>
  The values a caller can pass as \<^verbatim>\<open>context\<close> or \<^verbatim>\<open>extra\<close>: \<^verbatim>\<open>None\<close>, booleans, integers,
  strings, lists, dictionaries with string keys (in insertion order), and any other
  object, which carries the name of its type and its \<^verbatim>\<open>repr\<close> text and is not JSON
  serialisable. Floating-point numbers are left out.
\<close>

datatype pyval =
    PNone
  | PBool bool
  | PInt int
  | PStr pystr
  | PList "pyval list"
  | PDict "(pystr \<times> pyval) list"
  | PObj string pystr

datatype py_error =
    AttributeError string string
  | TypeError string
  | ValueError string
  | RuntimeError string
  | KeyError string
  | FileNotFoundError string
  | PermissionError string
  | IsADirectoryError string

text \<open>
  Converting an integer to decimal text, as \<^verbatim>\<open>str\<close>, \<^verbatim>\<open>repr\<close> and \<^verbatim>\<open>json.dumps\<close> all do.
  Since Python 3.11 the conversion raises \<^verbatim>\<open>ValueError\<close> when the number has more digits
  than \<^verbatim>\<open>sys.get_int_max_str_digits()\<close>, which is 4300 unless the program changes it, and
  can only be set to 0 (no limit, as in older versions) or to at least 640. \<open>lim\<close> is
  that setting.
\<close>

definition int_digits_error :: "nat \<Rightarrow> py_error" where
  "int_digits_error lim =
     ValueError (''Exceeds the limit ('' @ show_nat lim @
       '' digits) for integer string conversion; '' @
       ''use sys.set_int_max_str_digits() to increase the limit'')"

definition int_to_str :: "nat \<Rightarrow> int \<Rightarrow> py_error + string" where
  "int_to_str lim i =
     (let ds = show_nat (nat \<bar>i\<bar>)
      in if 0 < lim \<and> lim < length ds then Inl (int_digits_error lim)
         else Inr (if i < 0 then CHR ''-'' # ds else ds))"


subsection \<open>\<^verbatim>\<open>json.dumps\<close> with its default arguments\<close>

text \<open>
  Strings are escaped as \<^verbatim>\<open>ensure_ascii=True\<close> does: the quote and the backslash get a
  backslash, the five short escapes are used, and every other character outside
  \<^verbatim>\<open>' '..'~'\<close> becomes \<^verbatim>\<open>\u00xx\<close>.
\<close>

definition json_escape_char :: "char \<Rightarrow> string" where
  "json_escape_char c =
     (if c = dquote then [backslash, dquote]
      else if c = backslash then [backslash, backslash]
      else if c = newline then [backslash, CHR ''n'']
      else if c = CHR 0x0D then [backslash, CHR ''r'']
      else if c = CHR 0x09 then [backslash, CHR ''t'']
      else if c = CHR 0x08 then [backslash, CHR ''b'']
      else if c = CHR 0x0C then [backslash, CHR ''f'']
      else if 32 \<le> (of_char c :: nat) \<and> (of_char c :: nat) \<le> 126 then [c]
      else [backslash, CHR ''u'', CHR ''0'', CHR ''0'',
            hex_char ((of_char c :: nat) div 16), hex_char ((of_char c :: nat) mod 16)])"

definition json_string :: "pystr \<Rightarrow> string" where
  "json_string s = [dquote] @ concat (map json_escape_char s) @ [dquote]"

text \<open>
  The encoder walks the value from left to right and raises at the first thing it cannot
  render: \<^verbatim>\<open>TypeError\<close> for an object it cannot serialise, \<^verbatim>\<open>ValueError\<close> for an integer
  with too many digits. Items are separated by \<^verbatim>\<open>", "\<close> and a key from its value by
  \<^verbatim>\<open>": "\<close>.
\<close>

fun json_encode :: "nat \<Rightarrow> pyval \<Rightarrow> py_error + string"
  and json_items :: "nat \<Rightarrow> pyval list \<Rightarrow> py_error + string list"
  and json_pairs :: "nat \<Rightarrow> (pystr \<times> pyval) list \<Rightarrow> py_error + string list"
where
  "json_encode lim PNone = Inr ''null''"
| "json_encode lim (PBool b) = Inr (if b then ''true'' else ''false'')"
| "json_encode lim (PInt i) = int_to_str lim i"
| "json_encode lim (PStr s) = Inr (json_string s)"
| "json_encode lim (PList xs) =
     (case json_items lim xs of
        Inl e \<Rightarrow> Inl e | Inr ss \<Rightarrow> Inr (''['' @ join '', '' ss @ '']''))"
| "json_encode lim (PDict kvs) =
     (case json_pairs lim kvs of
        Inl e \<Rightarrow> Inl e | Inr ss \<Rightarrow> Inr (''{'' @ join '', '' ss @ ''}''))"
| "json_encode lim (PObj tname r) =
     Inl (TypeError (''Object of type '' @ tname @ '' is not JSON serializable''))"
| "json_items lim [] = Inr []"
| "json_items lim (x # xs) =
     (case json_encode lim x of Inl e \<Rightarrow> Inl e
      | Inr s \<Rightarrow> (case json_items lim xs of Inl e \<Rightarrow> Inl e | Inr ss \<Rightarrow> Inr (s # ss)))"
| "json_pairs lim [] = Inr []"
| "json_pairs lim ((k, v) # kvs) =
     (case json_encode lim v of Inl e \<Rightarrow> Inl e
      | Inr s \<Rightarrow> (case json_pairs lim kvs of Inl e \<Rightarrow> Inl e
                 | Inr ss \<Rightarrow> Inr ((json_string k @ '': '' @ s) # ss)))"

definition json_dumps :: "nat \<Rightarrow> pyval \<Rightarrow> py_error + string" where
  "json_dumps lim v = json_encode lim v"


subsection \<open>\<^verbatim>\<open>repr\<close> and \<^verbatim>\<open>str\<close>\<close>

text \<open>
  \<^verbatim>\<open>repr\<close> of a string picks double quotes when the text has a single quote and no double
  quote, single quotes otherwise. It escapes the chosen quote and the backslash, writes
  tab, newline and carriage return as \<^verbatim>\<open>\t\<close>, \<^verbatim>\<open>\n\<close>, \<^verbatim>\<open>\r\<close>, keeps the printable
  characters and writes the others as \<^verbatim>\<open>\xNN\<close>. In Latin-1 the printable characters are
  \<^verbatim>\<open>' '..'~'\<close> and \<^verbatim>\<open>U+00A1..U+00FF\<close> without the soft hyphen \<^verbatim>\<open>U+00AD\<close>.
\<close>

definition printable :: "char \<Rightarrow> bool" where
  "printable c =
     ((32 \<le> (of_char c :: nat) \<and> (of_char c :: nat) \<le> 126) \<or>
      (161 \<le> (of_char c :: nat) \<and> (of_char c :: nat) \<noteq> 173))"

definition repr_char :: "char \<Rightarrow> char \<Rightarrow> string" where
  "repr_char q c =
     (if c = q \<or> c = backslash then [backslash, c]
      else if c = CHR 0x09 then [backslash, CHR ''t'']
      else if c = newline then [backslash, CHR ''n'']
      else if c = CHR 0x0D then [backslash, CHR ''r'']
      else if printable c then [c]
      else [backslash, CHR ''x'',
            hex_char ((of_char c :: nat) div 16), hex_char ((of_char c :: nat) mod 16)])"

definition repr_string :: "pystr \<Rightarrow> pystr" where
  "repr_string s =
     (let q = (if squote \<in> set s \<and> dquote \<notin> set s then dquote else squote)
      in [q] @ concat (map (repr_char q) s) @ [q])"

text \<open>\<^verbatim>\<open>repr\<close> of a container renders its items from left to right and raises where an
  item's \<^verbatim>\<open>repr\<close> raises.\<close>

fun py_repr :: "nat \<Rightarrow> pyval \<Rightarrow> py_error + pystr"
  and repr_items :: "nat \<Rightarrow> pyval list \<Rightarrow> py_error + pystr list"
  and repr_pairs :: "nat \<Rightarrow> (pystr \<times> pyval) list \<Rightarrow> py_error + pystr list"
where
  "py_repr lim PNone = Inr ''None''"
| "py_repr lim (PBool b) = Inr (if b then ''True'' else ''False'')"
| "py_repr lim (PInt i) = int_to_str lim i"
| "py_repr lim (PStr s) = Inr (repr_string s)"
| "py_repr lim (PList xs) =
     (case repr_items lim xs of
        Inl e \<Rightarrow> Inl e | Inr ss \<Rightarrow> Inr (''['' @ join '', '' ss @ '']''))"
| "py_repr lim (PDict kvs) =
     (case repr_pairs lim kvs of
        Inl e \<Rightarrow> Inl e | Inr ss \<Rightarrow> Inr (''{'' @ join '', '' ss @ ''}''))"
| "py_repr lim (PObj tname r) = Inr r"
| "repr_items lim [] = Inr []"
| "repr_items lim (x # xs) =
     (case py_repr lim x of Inl e \<Rightarrow> Inl e
      | Inr s \<Rightarrow> (case repr_items lim xs of Inl e \<Rightarrow> Inl e | Inr ss \<Rightarrow> Inr (s # ss)))"
| "repr_pairs lim [] = Inr []"
| "repr_pairs lim ((k, v) # kvs) =
     (case py_repr lim v of Inl e \<Rightarrow> Inl e
      | Inr s \<Rightarrow> (case repr_pairs lim kvs of Inl e \<Rightarrow> Inl e
                 | Inr ss \<Rightarrow> Inr ((repr_string k @ '': '' @ s) # ss)))"

text \<open>\<^verbatim>\<open>str(x)\<close>, which is what the conversion \<^verbatim>\<open>!s\<close> of \<^verbatim>\<open>str.format\<close> applies: a string is
  itself, everything else is its \<^verbatim>\<open>repr\<close>.\<close>

fun py_str :: "nat \<Rightarrow> pyval \<Rightarrow> py_error + pystr" where
  "py_str lim (PStr s) = Inr s"
| "py_str lim v = py_repr lim v"

section \<open>Dictionaries\<close>

text \<open>
  A Python dictionary is a list of key-value pairs in insertion order with distinct keys.
  \<^verbatim>\<open>k in d\<close>, \<^verbatim>\<open>d[k]\<close>, \<^verbatim>\<open>d[k] = v\<close> and \<^verbatim>\<open>del d[k]\<close>:
\<close>

definition dict_contains :: "('k \<times> 'v) list \<Rightarrow> 'k \<Rightarrow> bool" where
  "dict_contains d k = (k \<in> set (map fst d))"

definition dict_getitem :: "(string \<times> 'v) list \<Rightarrow> string \<Rightarrow> py_error + 'v" where
  "dict_getitem d k = (case map_of d k of None \<Rightarrow> Inl (KeyError k) | Some v \<Rightarrow> Inr v)"

fun dict_setitem :: "'k \<Rightarrow> 'v \<Rightarrow> ('k \<times> 'v) list \<Rightarrow> ('k \<times> 'v) list" where
  "dict_setitem k v [] = [(k, v)]"
| "dict_setitem k v ((k', v') # d) =
     (if k' = k then (k, v) # d else (k', v') # dict_setitem k v d)"

definition dict_delitem :: "string \<Rightarrow> (string \<times> 'v) list \<Rightarrow> py_error + (string \<times> 'v) list" where
  "dict_delitem k d =
     (if dict_contains d k then Inr (filter (\<lambda>kv. fst kv \<noteq> k) d) else Inl (KeyError k))"


section \<open>The environment: clock and file system\<close>

record datetime =
  year :: nat
  month :: nat
  day :: nat
  hour :: nat
  minute :: nat
  second :: nat

text \<open>\<^verbatim>\<open>strftime('%Y-%m-%d %H:%M:%S')\<close>\<close>

definition strftime :: "datetime \<Rightarrow> string" where
  "strftime d =
     zfill 4 (show_nat (year d)) @ ''-'' @ zfill 2 (show_nat (month d)) @ ''-'' @
     zfill 2 (show_nat (day d)) @ '' '' @ zfill 2 (show_nat (hour d)) @ '':'' @
     zfill 2 (show_nat (minute d)) @ '':'' @ zfill 2 (show_nat (second d))"

text \<open>
  What the file system holds at a path: a regular file (whether this process may write
  it, and its contents), a directory, or nothing yet inside an existing directory
  (whether a file may be created there). A path the file system does not list has no
  containing directory.
\<close>

datatype fnode = File bool bytes | Directory | Absent bool

type_synonym filesystem = "(string \<times> fnode) list"

definition os_path_exists :: "filesystem \<Rightarrow> string \<Rightarrow> bool" where
  "os_path_exists fsys p =
     (case map_of fsys p of Some (File wr c) \<Rightarrow> True | Some Directory \<Rightarrow> True | _ \<Rightarrow> False)"

definition file_contents :: "filesystem \<Rightarrow> string \<Rightarrow> bytes option" where
  "file_contents fsys p = (case map_of fsys p of Some (File wr c) \<Rightarrow> Some c | _ \<Rightarrow> None)"

text \<open>
  An open file object: its path, the mode it was opened with, the bytes written but not
  yet flushed, the offset of its file descriptor, and whether it has been closed. A file
  opened with mode \<^verbatim>\<open>'a'\<close> appends: the operating system puts every write at the end of
  the file, whatever the offset. A file opened with mode \<^verbatim>\<open>'w'\<close> writes at its own
  offset, which starts at 0 and moves on by what it wrote; what lies there is
  overwritten, and a gap between the end of the file and the offset is filled with zero
  bytes.
\<close>

datatype fmode = ModeA | ModeW

record pyfile =
  f_name :: string
  f_mode :: fmode
  f_buffer :: bytes
  f_pos :: nat
  f_closed :: bool

text \<open>\<^verbatim>\<open>open(p, 'a')\<close> and \<^verbatim>\<open>open(p, 'w')\<close>: both create a missing file; \<^verbatim>\<open>'w'\<close> empties an
  existing one, \<^verbatim>\<open>'a'\<close> keeps it and starts at its end.\<close>

definition py_open :: "filesystem \<Rightarrow> string \<Rightarrow> fmode \<Rightarrow> (py_error + pyfile) \<times> filesystem" where
  "py_open fsys p m =
     (case map_of fsys p of
        None \<Rightarrow> (Inl (FileNotFoundError p), fsys)
      | Some Directory \<Rightarrow> (Inl (IsADirectoryError p), fsys)
      | Some (Absent creatable) \<Rightarrow>
          if creatable
          then (Inr \<lparr>f_name = p, f_mode = m, f_buffer = [], f_pos = 0, f_closed = False\<rparr>,
                dict_setitem p (File True []) fsys)
          else (Inl (PermissionError p), fsys)
      | Some (File wr c) \<Rightarrow>
          if wr
          then (case m of
                  ModeA \<Rightarrow>
                    (Inr \<lparr>f_name = p, f_mode = m, f_buffer = [], f_pos = length c,
                          f_closed = False\<rparr>, fsys)
                | ModeW \<Rightarrow>
                    (Inr \<lparr>f_name = p, f_mode = m, f_buffer = [], f_pos = 0,
                          f_closed = False\<rparr>, dict_setitem p (File wr []) fsys))
          else (Inl (PermissionError p), fsys))"

text \<open>What a file with contents \<open>c\<close> holds after \<open>data\<close> has been written through a
  descriptor of mode \<open>m\<close> at offset \<open>pos\<close>, and the offset afterwards.\<close>

definition fd_write :: "fmode \<Rightarrow> nat \<Rightarrow> bytes \<Rightarrow> bytes \<Rightarrow> bytes" where
  "fd_write m pos c data =
     (if data = [] then c
      else case m of
             ModeA \<Rightarrow> c @ data
           | ModeW \<Rightarrow> take pos c @ replicate (pos - length c) (CHR 0x00) @ data @
                      drop (pos + length data) c)"

definition fd_pos :: "fmode \<Rightarrow> nat \<Rightarrow> bytes \<Rightarrow> bytes \<Rightarrow> nat" where
  "fd_pos m pos c data =
     (if data = [] then pos
      else case m of ModeA \<Rightarrow> length c + length data | ModeW \<Rightarrow> pos + length data)"

definition closed_file_error :: py_error where
  "closed_file_error = ValueError ''I/O operation on closed file.''"

text \<open>\<^verbatim>\<open>write\<close> puts the encoded text into the buffer; \<^verbatim>\<open>flush\<close> hands the buffer to the
  operating system.\<close>

definition file_write :: "pyfile \<Rightarrow> bytes \<Rightarrow> py_error + pyfile" where
  "file_write f s =
     (if f_closed f then Inl closed_file_error else Inr (f\<lparr>f_buffer := f_buffer f @ s\<rparr>))"

definition flush_buffer :: "filesystem \<Rightarrow> pyfile \<Rightarrow> pyfile \<times> filesystem" where
  "flush_buffer fsys f =
     (case map_of fsys (f_name f) of
        Some (File wr c) \<Rightarrow>
          (f\<lparr>f_buffer := [], f_pos := fd_pos (f_mode f) (f_pos f) c (f_buffer f)\<rparr>,
           dict_setitem (f_name f) (File wr (fd_write (f_mode f) (f_pos f) c (f_buffer f))) fsys)
      | _ \<Rightarrow> (f\<lparr>f_buffer := []\<rparr>, fsys))"

definition file_flush :: "filesystem \<Rightarrow> pyfile \<Rightarrow> (py_error + pyfile) \<times> filesystem" where
  "file_flush fsys f =
     (if f_closed f then (Inl closed_file_error, fsys)
      else (Inr (fst (flush_buffer fsys f)), snd (flush_buffer fsys f)))"

text \<open>\<^verbatim>\<open>close()\<close> flushes and closes; on a closed file it does nothing.\<close>

definition file_close :: "filesystem \<Rightarrow> pyfile \<Rightarrow> pyfile \<times> filesystem" where
  "file_close fsys f =
     (if f_closed f then (f, fsys)
      else ((fst (flush_buffer fsys f))\<lparr>f_closed := True\<rparr>, snd (flush_buffer fsys f)))"


section \<open>Objects\<close>

text \<open>
  A \<^verbatim>\<open>SimpleLogger\<close> instance has the attributes \<^verbatim>\<open>fp\<close> and \<^verbatim>\<open>_proxy_registry\<close>; a
  \<^verbatim>\<open>SimpleLoggerProxy\<close> instance has \<^verbatim>\<open>logger\<close> and \<^verbatim>\<open>channel\<close> and nothing else, since its
  constructor does not call the parent's. Objects live in two stores, one per class; an
  object's identity is its index. A proxy is only ever built by \<^verbatim>\<open>SimpleLogger.fork\<close>,
  so its \<^verbatim>\<open>logger\<close> is an index into the store of loggers and the values of a registry
  are indices into the store of proxies.
\<close>

record logger_obj =
  self_fp :: pyfile
  self_proxy_registry :: "(string \<times> nat) list"

record proxy_obj =
  self_logger :: nat
  self_channel :: string

datatype objref = LoggerRef nat | ProxyRef nat

text \<open>The state of the program's world: the file system, the reading of the clock, the
  interpreter's limit on integer string conversion, and the two object stores.\<close>

record world =
  fs :: filesystem
  now :: datetime
  int_max_str_digits :: nat
  loggers :: "logger_obj list"
  proxies :: "proxy_obj list"

type_synonym 'a result = "(py_error + 'a) \<times> world"

text \<open>Reading and storing \<^verbatim>\<open>self.fp\<close>. Looking the attribute up on an object that lacks it
  raises \<^verbatim>\<open>AttributeError\<close>; an index that holds no object is treated the same way.\<close>

fun getattr_fp :: "world \<Rightarrow> objref \<Rightarrow> py_error + pyfile" where
  "getattr_fp w (LoggerRef r) =
     (if r < length (loggers w) then Inr (self_fp (loggers w ! r))
      else Inl (AttributeError ''SimpleLogger'' ''fp''))"
| "getattr_fp w (ProxyRef p) = Inl (AttributeError ''SimpleLoggerProxy'' ''fp'')"

fun store_fp :: "world \<Rightarrow> objref \<Rightarrow> pyfile \<Rightarrow> world" where
  "store_fp w (LoggerRef r) f =
     w\<lparr>loggers := (loggers w)[r := (loggers w ! r)\<lparr>self_fp := f\<rparr>]\<rparr>"
| "store_fp w (ProxyRef p) f = w"

definition registry :: "world \<Rightarrow> nat \<Rightarrow> (string \<times> nat) list" where
  "registry w r = self_proxy_registry (loggers w ! r)"

definition store_registry :: "world \<Rightarrow> nat \<Rightarrow> (string \<times> nat) list \<Rightarrow> world" where
  "store_registry w r reg =
     w\<lparr>loggers := (loggers w)[r := (loggers w ! r)\<lparr>self_proxy_registry := reg\<rparr>]\<rparr>"


section \<open>SimpleLogger and SimpleLoggerProxy\<close>

definition EMERGENCY :: string where "EMERGENCY = ''EMERGENCY''"
definition ALERT :: string where "ALERT = ''ALERT''"
definition CRITICAL :: string where "CRITICAL = ''CRITICAL''"
definition ERROR :: string where "ERROR = ''ERROR''"
definition WARNING :: string where "WARNING = ''WARNING''"
definition NOTICE :: string where "NOTICE = ''INFO''"
definition INFO :: string where "INFO = ''INFO''"
definition DEBUG :: string where "DEBUG = ''DEBUG''"

definition DEFAULT_CHANNEL :: string where "DEFAULT_CHANNEL = ''app''"

text \<open>\<^verbatim>\<open>SimpleLoggerProxy(logger=..., channel=...)\<close>: a new object with the two attributes.\<close>

definition SimpleLoggerProxy_init :: "world \<Rightarrow> nat \<Rightarrow> string \<Rightarrow> nat \<times> world" where
  "SimpleLoggerProxy_init w logger channel =
     (length (proxies w),
      w\<lparr>proxies := proxies w @ [\<lparr>self_logger = logger, self_channel = channel\<rparr>]\<rparr>)"

definition SimpleLoggerProxy_del :: "world \<Rightarrow> nat \<Rightarrow> unit result" where
  "SimpleLoggerProxy_del w p = (Inr (), w)"

text \<open>\<^verbatim>\<open>SimpleLogger.fork\<close>\<close>

definition SimpleLogger_fork :: "world \<Rightarrow> nat \<Rightarrow> string \<Rightarrow> nat result" where
  "SimpleLogger_fork w r channel =
     (if r < length (loggers w) then
        if dict_contains (registry w r) channel
        then (dict_getitem (registry w r) channel, w)
        else
          (let (p, w1) = SimpleLoggerProxy_init w r channel;
               w2 = store_registry w1 r (dict_setitem channel p (registry w1 r))
           in (dict_getitem (registry w2 r) channel, w2))
      else (Inl (AttributeError ''SimpleLogger'' ''_proxy_registry''), w))"

text \<open>
  \<^verbatim>\<open>SimpleLogger.write\<close>, which a proxy inherits, so \<open>self\<close> is an object of either class.
  The statement \<^verbatim>\<open>log_entry = '...'.format(...)\<close> runs first: its arguments are evaluated,
  \<^verbatim>\<open>json.dumps(context)\<close> among them, and then \<^verbatim>\<open>format\<close> converts \<^verbatim>\<open>extra\<close> with \<^verbatim>\<open>str\<close>.
  Only then is \<^verbatim>\<open>self.fp\<close> looked up. The entry is held as the bytes \<^verbatim>\<open>fp.write\<close> makes of
  it; the timestamp and the separators are ASCII, which UTF-8 leaves as they are.
\<close>

definition SimpleLogger_write ::
  "world \<Rightarrow> objref \<Rightarrow> pystr \<Rightarrow> pystr \<Rightarrow> pystr \<Rightarrow> pyval \<Rightarrow> pyval \<Rightarrow> unit result" where
  "SimpleLogger_write w self channel level message context extra =
     (let context1 = (if context = PNone then PList [] else context);
          extra1 = (if extra = PNone then PList [] else extra)
      in case json_dumps (int_max_str_digits w) context1 of
           Inl e \<Rightarrow> (Inl e, w)
         | Inr cjson \<Rightarrow>
             (case py_str (int_max_str_digits w) extra1 of
                Inl e \<Rightarrow> (Inl e, w)
              | Inr etext \<Rightarrow>
                  (let log_entry =
                         ''['' @ strftime (now w) @ ''] '' @ utf8 (py_lower channel) @ ''.'' @
                         py_upper_utf8 level @ '': '' @ utf8 message @ '' '' @ utf8 cjson @
                         '' '' @ utf8 etext @ [newline]
                   in case getattr_fp w self of
                        Inl e \<Rightarrow> (Inl e, w)
                      | Inr f \<Rightarrow>
                          (case file_write f log_entry of
                             Inl e \<Rightarrow> (Inl e, w)
                           | Inr f1 \<Rightarrow>
                               (case file_flush (fs w) f1 of
                                  (Inl e, fs1) \<Rightarrow>
                                    (Inl e, store_fp (w\<lparr>fs := fs1\<rparr>) self f1)
                                | (Inr f2, fs1) \<Rightarrow>
                                    (Inr (), store_fp (w\<lparr>fs := fs1\<rparr>) self f2))))))"

text \<open>\<^verbatim>\<open>SimpleLoggerProxy.fork\<close> and \<^verbatim>\<open>SimpleLoggerProxy.log\<close>\<close>

definition SimpleLoggerProxy_fork :: "world \<Rightarrow> nat \<Rightarrow> string \<Rightarrow> nat result" where
  "SimpleLoggerProxy_fork w p channel =
     (if p < length (proxies w)
      then SimpleLogger_fork w (self_logger (proxies w ! p)) channel
      else (Inl (AttributeError ''SimpleLoggerProxy'' ''logger''), w))"

definition SimpleLoggerProxy_log ::
  "world \<Rightarrow> nat \<Rightarrow> string \<Rightarrow> string \<Rightarrow> pyval \<Rightarrow> unit result" where
  "SimpleLoggerProxy_log w p level message context =
     (if p < length (proxies w)
      then SimpleLogger_write w (LoggerRef (self_logger (proxies w ! p)))
             (self_channel (proxies w ! p)) level message context PNone
      else (Inl (AttributeError ''SimpleLoggerProxy'' ''logger''), w))"

text \<open>\<^verbatim>\<open>SimpleLogger.log\<close>\<close>

definition SimpleLogger_log ::
  "world \<Rightarrow> nat \<Rightarrow> string \<Rightarrow> string \<Rightarrow> pyval \<Rightarrow> unit result" where
  "SimpleLogger_log w r level message context =
     (case SimpleLogger_fork w r DEFAULT_CHANNEL of
        (Inl e, w1) \<Rightarrow> (Inl e, w1)
      | (Inr p, w1) \<Rightarrow> SimpleLoggerProxy_log w1 p level message context)"

text \<open>A call \<^verbatim>\<open>obj.log(...)\<close> or \<^verbatim>\<open>obj.fork(...)\<close> runs the method of the object's class.\<close>

fun log_method :: "world \<Rightarrow> objref \<Rightarrow> string \<Rightarrow> string \<Rightarrow> pyval \<Rightarrow> unit result" where
  "log_method w (LoggerRef r) level message context = SimpleLogger_log w r level message context"
| "log_method w (ProxyRef p) level message context =
     SimpleLoggerProxy_log w p level message context"

fun fork_method :: "world \<Rightarrow> objref \<Rightarrow> string \<Rightarrow> nat result" where
  "fork_method w (LoggerRef r) channel = SimpleLogger_fork w r channel"
| "fork_method w (ProxyRef p) channel = SimpleLoggerProxy_fork w p channel"

text \<open>The eight leveled methods, defined in \<^verbatim>\<open>SimpleLogger\<close> and inherited by the proxy.\<close>

definition SimpleLogger_emergency :: "world \<Rightarrow> objref \<Rightarrow> string \<Rightarrow> pyval \<Rightarrow> unit result" where
  "SimpleLogger_emergency w self message context = log_method w self EMERGENCY message context"

definition SimpleLogger_alert :: "world \<Rightarrow> objref \<Rightarrow> string \<Rightarrow> pyval \<Rightarrow> unit result" where
  "SimpleLogger_alert w self message context = log_method w self ALERT message context"

definition SimpleLogger_critical :: "world \<Rightarrow> objref \<Rightarrow> string \<Rightarrow> pyval \<Rightarrow> unit result" where
  "SimpleLogger_critical w self message context = log_method w self CRITICAL message context"

definition SimpleLogger_error :: "world \<Rightarrow> objref \<Rightarrow> string \<Rightarrow> pyval \<Rightarrow> unit result" where
  "SimpleLogger_error w self message context = log_method w self ERROR message context"

definition SimpleLogger_warning :: "world \<Rightarrow> objref \<Rightarrow> string \<Rightarrow> pyval \<Rightarrow> unit result" where
  "SimpleLogger_warning w self message context = log_method w self WARNING message context"

definition SimpleLogger_notice :: "world \<Rightarrow> objref \<Rightarrow> string \<Rightarrow> pyval \<Rightarrow> unit result" where
  "SimpleLogger_notice w self message context = log_method w self NOTICE message context"

definition SimpleLogger_info :: "world \<Rightarrow> objref \<Rightarrow> string \<Rightarrow> pyval \<Rightarrow> unit result" where
  "SimpleLogger_info w self message context = log_method w self INFO message context"

definition SimpleLogger_debug :: "world \<Rightarrow> objref \<Rightarrow> string \<Rightarrow> pyval \<Rightarrow> unit result" where
  "SimpleLogger_debug w self message context = log_method w self DEBUG message context"

text \<open>\<^verbatim>\<open>SimpleLogger.__init__\<close>, run on a freshly allocated object. When \<^verbatim>\<open>open\<close> raises,
  the object never gets its attributes and is not kept.\<close>

definition SimpleLogger_init :: "world \<Rightarrow> string \<Rightarrow> nat result" where
  "SimpleLogger_init w filename =
     (let mode = (if os_path_exists (fs w) filename then ModeA else ModeW)
      in case py_open (fs w) filename mode of
           (Inl e, fs1) \<Rightarrow> (Inl e, w)
         | (Inr f, fs1) \<Rightarrow>
             (let r = length (loggers w);
                  w1 = w\<lparr>fs := fs1,
                         loggers := loggers w @ [\<lparr>self_fp = f, self_proxy_registry = []\<rparr>]\<rparr>
              in case SimpleLogger_fork w1 r DEFAULT_CHANNEL of
                   (Inl e, w2) \<Rightarrow> (Inl e, w2)
                 | (Inr p, w2) \<Rightarrow> (Inr r, w2)))"

text \<open>
  \<^verbatim>\<open>SimpleLogger.__del__\<close>. The loop iterates over the registry itself: before it hands
  out the next key, and before it reports the end, the dictionary iterator compares the
  dictionary's size with the size it saw when the loop started, and raises
  \<^verbatim>\<open>RuntimeError\<close> when they differ. \<open>used\<close> is that initial size, \<open>ks\<close> the keys not yet
  handed out.
\<close>

definition changed_size_error :: py_error where
  "changed_size_error = RuntimeError ''dictionary changed size during iteration''"

fun del_loop :: "world \<Rightarrow> nat \<Rightarrow> nat \<Rightarrow> string list \<Rightarrow> unit result" where
  "del_loop w r used [] =
     (if length (registry w r) \<noteq> used then (Inl changed_size_error, w) else (Inr (), w))"
| "del_loop w r used (k # ks) =
     (if length (registry w r) \<noteq> used then (Inl changed_size_error, w)
      else case dict_delitem k (registry w r) of
             Inl e \<Rightarrow> (Inl e, w)
           | Inr reg \<Rightarrow> del_loop (store_registry w r reg) r used ks)"

definition SimpleLogger_del :: "world \<Rightarrow> nat \<Rightarrow> unit result" where
  "SimpleLogger_del w r =
     (if r < length (loggers w) then
        (let f = self_fp (loggers w ! r);
             (f1, fs1) = (if \<not> f_closed f then file_close (fs w) f else (f, fs w));
             w1 = store_fp (w\<lparr>fs := fs1\<rparr>) (LoggerRef r) f1
         in del_loop w1 r (length (registry w1 r)) (map fst (registry w1 r)))
      else (Inl (AttributeError ''SimpleLogger'' ''fp''), w))"


section \<open>What the specification talks about\<close>

text \<open>The shape of a log line, as the specification writes it: the six parts between the
  fixed separators, ended by a newline. The parts are given as they stand in the file, in
  bytes.\<close>

definition spec_line ::
  "bytes \<Rightarrow> bytes \<Rightarrow> bytes \<Rightarrow> bytes \<Rightarrow> bytes \<Rightarrow> bytes \<Rightarrow> bytes" where
  "spec_line timestamp chan lev msg context_json extra_text =
     ''['' @ timestamp @ ''] '' @ chan @ ''.'' @ lev @ '': '' @ msg @ '' '' @
     context_json @ '' '' @ extra_text @ [newline]"

text \<open>The number of lines a text holds is the number of its newline characters.\<close>

definition line_count :: "string \<Rightarrow> nat" where
  "line_count s = length (filter (\<lambda>c. c = newline) s)"

text \<open>A timestamp \<^verbatim>\<open>YYYY-MM-DD HH:MM:SS\<close>: nineteen characters, digits around the fixed
  separators.\<close>

definition is_digits :: "string \<Rightarrow> bool" where
  "is_digits s = list_all (\<lambda>c. c \<in> set ''0123456789'') s"



text \<open>The log levels of the specification and its table of display strings.\<close>

datatype log_level =
  Emergency | Alert | Critical | Error | Warning | Notice | Info | Debug

fun spec_level_tag :: "log_level \<Rightarrow> string" where
  "spec_level_tag Emergency = ''EMERGENCY''"
| "spec_level_tag Alert = ''ALERT''"
| "spec_level_tag Critical = ''CRITICAL''"
| "spec_level_tag Error = ''ERROR''"
| "spec_level_tag Warning = ''WARNING''"
| "spec_level_tag Notice = ''INFO''"
| "spec_level_tag Info = ''INFO''"
| "spec_level_tag Debug = ''DEBUG''"

text \<open>The leveled method of the source that serves each level.\<close>

fun leveled_call :: "log_level \<Rightarrow> world \<Rightarrow> objref \<Rightarrow> string \<Rightarrow> pyval \<Rightarrow> unit result" where
  "leveled_call Emergency = SimpleLogger_emergency"
| "leveled_call Alert = SimpleLogger_alert"
| "leveled_call Critical = SimpleLogger_critical"
| "leveled_call Error = SimpleLogger_error"
| "leveled_call Warning = SimpleLogger_warning"
| "leveled_call Notice = SimpleLogger_notice"
| "leveled_call Info = SimpleLogger_info"
| "leveled_call Debug = SimpleLogger_debug"

text \<open>
  The registry of logger \<open>r\<close> is in order when each of its entries \<open>(c, p)\<close> names a
  proxy object that is bound to \<open>r\<close> and to the channel \<open>c\<close>.
\<close>

definition registry_ok :: "world \<Rightarrow> nat \<Rightarrow> bool" where
  "registry_ok w r =
     list_all (\<lambda>(c, p). p < length (proxies w) \<and>
                 proxies w ! p = \<lparr>self_logger = r, self_channel = c\<rparr>) (registry w r)"

definition bound_proxy :: "world \<Rightarrow> nat \<Rightarrow> nat \<Rightarrow> string \<Rightarrow> bool" where
  "bound_proxy w p r c =
     (p < length (proxies w) \<and> proxies w ! p = \<lparr>self_logger = r, self_channel = c\<rparr>)"

text \<open>The file object of logger \<open>r\<close>, and the contents on disk of the file it writes.\<close>

definition fp_of :: "world \<Rightarrow> nat \<Rightarrow> pyfile" where
  "fp_of w r = self_fp (loggers w ! r)"

definition log_file :: "world \<Rightarrow> nat \<Rightarrow> bytes option" where
  "log_file w r = file_contents (fs w) (f_name (fp_of w r))"

text \<open>
  Logger \<open>r\<close> writes at the end of its file when its file object appends, or when the
  offset of its file object is the length of the file, which is so for a file opened
  with mode \<^verbatim>\<open>'w'\<close> as long as nothing else has written to the path.
\<close>

definition writes_at_end :: "world \<Rightarrow> nat \<Rightarrow> bool" where
  "writes_at_end w r =
     (case f_mode (fp_of w r) of
        ModeA \<Rightarrow> True
      | ModeW \<Rightarrow> (case log_file w r of
                   Some c \<Rightarrow> f_pos (fp_of w r) = length c | None \<Rightarrow> False))"

text \<open>
  What the file of logger \<open>r\<close> holds, having held \<open>old\<close>, once the logger has flushed
  the bytes still pending in its file object followed by \<open>data\<close>. When the logger writes
  at the end of its file, that is \<open>old\<close> followed by those bytes.
\<close>

definition written :: "world \<Rightarrow> nat \<Rightarrow> bytes \<Rightarrow> bytes \<Rightarrow> bytes" where
  "written w r old data =
     fd_write (f_mode (fp_of w r)) (f_pos (fp_of w r)) old (f_buffer (fp_of w r) @ data)"

text \<open>The defaults \<^verbatim>\<open>write\<close> substitutes for an omitted \<^verbatim>\<open>context\<close> or \<^verbatim>\<open>extra\<close>.\<close>

definition or_empty_list :: "pyval \<Rightarrow> pyval" where
  "or_empty_list v = (if v = PNone then PList [] else v)"


text \<open>
  Who a leveled call or a \<^verbatim>\<open>log\<close> call on \<open>self\<close> ends up writing for: a proxy writes for
  the logger and the channel it is bound to, a logger for itself on the default channel.
\<close>

fun logs_to :: "world \<Rightarrow> objref \<Rightarrow> nat \<Rightarrow> string \<Rightarrow> bool" where
  "logs_to w (LoggerRef r') r c =
     (r' = r \<and> c = DEFAULT_CHANNEL \<and> r < length (loggers w) \<and> registry_ok w r)"
| "logs_to w (ProxyRef p) r c = bound_proxy w p r c"


text \<open>The caller's \<^verbatim>\<open>logger.fp.close()\<close>.\<close>

definition caller_closes_fp :: "world \<Rightarrow> nat \<Rightarrow> world" where
  "caller_closes_fp w r =
     (let (f1, fs1) = file_close (fs w) (fp_of w r)
      in store_fp (w\<lparr>fs := fs1\<rparr>) (LoggerRef r) f1)"




section \<open>Example worlds\<close>

text \<open>
  A clock reading and a file system with a path where a file can be created, an existing
  writable log, a read-only file and a directory that refuses new files; then the world
  after \<^verbatim>\<open>SimpleLogger('/tmp/x.log')\<close>, after a further \<^verbatim>\<open>fork('billing')\<close>, after
  \<^verbatim>\<open>SimpleLogger('/var/log/old.log')\<close> instead, and after the caller has closed the
  logger's file. The interpreter's limit on integer string conversion is the default.
\<close>

definition example_clock :: datetime where
  "example_clock = \<lparr>year = 2026, month = 11, day = 3, hour = 9, minute = 5, second = 7\<rparr>"

definition example_world :: world where
  "example_world =
     \<lparr>fs = [(''/tmp/x.log'', Absent True),
            (''/var/log/old.log'', File True ''first line\<newline>''),
            (''/etc/ro.log'', File False ''x''),
            (''/srv/full/y.log'', Absent False)],
      now = example_clock, int_max_str_digits = 4300, loggers = [], proxies = []\<rparr>"

definition example_fs :: filesystem where
  "example_fs =
     [(''/tmp/x.log'', File True []),
      (''/var/log/old.log'', File True ''first line\<newline>''),
      (''/etc/ro.log'', File False ''x''),
      (''/srv/full/y.log'', Absent False)]"

definition example_fp :: pyfile where
  "example_fp =
     \<lparr>f_name = ''/tmp/x.log'', f_mode = ModeW, f_buffer = [], f_pos = 0, f_closed = False\<rparr>"

definition logger_world :: world where
  "logger_world =
     \<lparr>fs = example_fs, now = example_clock, int_max_str_digits = 4300,
      loggers = [\<lparr>self_fp = example_fp, self_proxy_registry = [(''app'', 0)]\<rparr>],
      proxies = [\<lparr>self_logger = 0, self_channel = ''app''\<rparr>]\<rparr>"

definition billing_world :: world where
  "billing_world =
     \<lparr>fs = example_fs, now = example_clock, int_max_str_digits = 4300,
      loggers = [\<lparr>self_fp = example_fp,
                  self_proxy_registry = [(''app'', 0), (''billing'', 1)]\<rparr>],
      proxies = [\<lparr>self_logger = 0, self_channel = ''app''\<rparr>,
                 \<lparr>self_logger = 0, self_channel = ''billing''\<rparr>]\<rparr>"

definition old_log_world :: world where
  "old_log_world =
     \<lparr>fs = fs example_world, now = example_clock, int_max_str_digits = 4300,
      loggers = [\<lparr>self_fp = \<lparr>f_name = ''/var/log/old.log'', f_mode = ModeA, f_buffer = [],
                            f_pos = 11, f_closed = False\<rparr>,
                  self_proxy_registry = [(''app'', 0)]\<rparr>],
      proxies = [\<lparr>self_logger = 0, self_channel = ''app''\<rparr>]\<rparr>"

definition closed_world :: world where
  "closed_world =
     \<lparr>fs = example_fs, now = example_clock, int_max_str_digits = 4300,
      loggers = [\<lparr>self_fp = example_fp\<lparr>f_closed := True\<rparr>,
                  self_proxy_registry = [(''app'', 0)]\<rparr>],
      proxies = [\<lparr>self_logger = 0, self_channel = ''app''\<rparr>]\<rparr>"



definition third_entry :: bytes where
  "third_entry = ''[2026-11-03 09:05:07] app.INFO: third! [] []\<newline>''"




text \<open>An integer of 4301 digits, one more than the default limit allows to convert.\<close>

definition huge_int :: int where
  "huge_int = 10 ^ 4300"

section \<open>Facts about text\<close>

lemma line_count_append: "line_count (a @ b) = line_count a + line_count b"
  by (simp add: line_count_def)


lemma line_count_Cons:
  "line_count (x # xs) = (if x = newline then Suc (line_count xs) else line_count xs)"
  by (simp add: line_count_def)

lemma line_count_Nil: "line_count [] = 0"
  by (simp add: line_count_def)

lemma line_count_concat_map:
  assumes "\<And>c. line_count (f c) = (if c = newline then 1 else 0)"
  shows "line_count (concat (map f s)) = line_count s"
  by (induction s) (simp_all add: line_count_Nil line_count_append line_count_Cons assms)

lemma digit_char_in: "digit_char n \<in> set ''0123456789''"
  unfolding digit_char_def by (rule nth_mem) simp


lemma digit_char_not_newline: "digit_char n \<noteq> newline"
  using digit_char_in [of n] by (auto simp: newline_def)









lemma char_of_not_newline:
  assumes "128 \<le> a" "a < 256" shows "char_of (a::nat) \<noteq> newline"
proof
  assume "char_of a = newline"
  then have "(of_char (char_of a :: char) :: nat) = of_char newline" by simp
  then have "a mod 256 = 10" by (simp add: newline_def)
  with assms show False by simp
qed

lemma utf8_char_newlines: "line_count (utf8_char c) = (if c = newline then 1 else 0)"
proof (cases "(of_char c :: nat) < 128")
  case True
  then show ?thesis by (simp add: utf8_char_def line_count_def)
next
  case False
  have lt: "(of_char c :: nat) < 256" by simp
  have a: "char_of (192 + (of_char c :: nat) div 64) \<noteq> newline"
    by (rule char_of_not_newline) (use lt in arith)+
  have b: "char_of (128 + (of_char c :: nat) mod 64) \<noteq> newline"
    by (rule char_of_not_newline) (use lt in arith)+
  from False have "c \<noteq> newline" by (auto simp: newline_def)
  with False a b show ?thesis by (simp add: utf8_char_def line_count_def)
qed


lemma line_count_utf8: "line_count (utf8 s) = line_count s"
  unfolding utf8_def by (rule line_count_concat_map) (rule utf8_char_newlines)



lemma line_count_zero: "line_count s = 0 \<longleftrightarrow> newline \<notin> set s"
  by (induction s) (auto simp: line_count_def)

lemma utf8_no_newline: "newline \<notin> set s \<Longrightarrow> newline \<notin> set (utf8 s)"
  using line_count_utf8 [of s] by (simp add: line_count_zero [symmetric])

text \<open>ASCII text is its own encoding.\<close>

lemma utf8_ascii: "list_all (\<lambda>c. (of_char c :: nat) < 128) s \<Longrightarrow> utf8 s = s"
  by (induction s) (simp_all add: utf8_def utf8_char_def)









lemma spec_line_not_empty: "spec_line ts c l m j e \<noteq> []"
  by (simp add: spec_line_def)

lemma show_nat_small: "n < 10 \<Longrightarrow> show_nat n = [digit_char n]"
  by (subst show_nat.simps) simp

lemma show_nat_step: "10 \<le> n \<Longrightarrow> show_nat n = show_nat (n div 10) @ [digit_char (n mod 10)]"
  by (subst show_nat.simps) simp

lemma length_show_nat_small: "n < 10 \<Longrightarrow> length (show_nat n) = 1"
  by (simp only: show_nat_small) simp

lemma length_show_nat_step: "10 \<le> n \<Longrightarrow> length (show_nat n) = Suc (length (show_nat (n div 10)))"
  by (subst show_nat_step) simp_all



text \<open>A number from \<open>10 ^ k\<close> on has more than \<open>k\<close> digits.\<close>

lemma length_show_nat_lower: "10 ^ k \<le> n \<Longrightarrow> k < length (show_nat n)"
proof (induction k arbitrary: n)
  case 0
  show ?case
  proof (cases "n < 10")
    case True
    then show ?thesis by (simp only: length_show_nat_small)
  next
    case False
    then have "10 \<le> n" by simp
    then show ?thesis by (simp only: length_show_nat_step)
  qed
next
  case (Suc k)
  have pos: "(1::nat) \<le> 10 ^ k" by simp
  from Suc.prems have big: "10 * 10 ^ k \<le> n" by simp
  with pos have ten: "10 \<le> n" by arith
  from big have "10 ^ k \<le> n div 10" by arith
  then have "k < length (show_nat (n div 10))" by (rule Suc.IH)
  then show ?case by (simp only: length_show_nat_step [OF ten])
qed

lemma int_to_str_too_long:
  assumes "0 < lim" "10 ^ lim \<le> \<bar>i\<bar>"
  shows "int_to_str lim i = Inl (int_digits_error lim)"
proof -
  from assms(2) have "int (10 ^ lim) \<le> int (nat \<bar>i\<bar>)" by simp
  then have "10 ^ lim \<le> nat \<bar>i\<bar>" by (simp only: of_nat_le_iff)
  then have len: "lim < length (show_nat (nat \<bar>i\<bar>))" by (rule length_show_nat_lower)
  show ?thesis
    unfolding int_to_str_def Let_def using assms(1) len by (simp only: simp_thms if_True)
qed






lemma is_digits_take: "is_digits s \<Longrightarrow> is_digits (take k s)"
  unfolding is_digits_def list_all_iff by (meson in_set_takeD)



lemma str_empty_list: "py_str lim (or_empty_list PNone) = Inr ''[]''"
  by (simp add: or_empty_list_def)


lemma utf8_brackets: "utf8 ''[]'' = ''[]''"
  by (simp add: utf8_def utf8_char_def)

lemma utf8_app: "utf8 (py_lower ''app'') = ''app''"
  by (simp add: utf8_def utf8_char_def py_lower_def lower_char_def ascii_uppercase_def
      ascii_lowercase_def latin1_uppercase_def latin1_lowercase_def)

lemma upper_level_tag: "py_upper_utf8 (spec_level_tag lv) = spec_level_tag lv"
  by (cases lv)
    (simp_all add: py_upper_utf8_def upper_char_utf8_def utf8_char_def ascii_lowercase_def
      ascii_uppercase_def latin1_uppercase_def latin1_lowercase_def)

section \<open>Facts about dictionaries, files and the write path\<close>

lemma map_of_dict_setitem: "map_of (dict_setitem k v d) = (map_of d)(k \<mapsto> v)"
  by (induction d) (auto simp: fun_eq_iff)

lemma dict_setitem_new: "map_of d k = None \<Longrightarrow> dict_setitem k v d = d @ [(k, v)]"
  by (induction d) (auto split: if_splits)

lemma dict_contains_iff: "dict_contains d k \<longleftrightarrow> map_of d k \<noteq> None"
  unfolding dict_contains_def by (simp add: map_of_eq_None_iff)

lemma dict_getitem_Some: "map_of d k = Some v \<Longrightarrow> dict_getitem d k = Inr v"
  by (simp add: dict_getitem_def)


lemma fd_pos_at_end:
  "m = ModeW \<Longrightarrow> pos = length c \<Longrightarrow> fd_pos m pos c data = length (fd_write m pos c data)"
  by (simp add: fd_pos_def fd_write_def)

lemma fd_mode_unchanged: "f_mode (fst (flush_buffer fsys f)) = f_mode f"
  "f_name (fst (flush_buffer fsys f)) = f_name f"
  "f_closed (fst (flush_buffer fsys f)) = f_closed f"
  "f_buffer (fst (flush_buffer fsys f)) = []"
  by (simp_all add: flush_buffer_def split: option.splits fnode.splits)

lemma flush_buffer_contents:
  "file_contents (snd (flush_buffer fsys f)) q =
     (if q = f_name f
      then map_option (\<lambda>c. fd_write (f_mode f) (f_pos f) c (f_buffer f)) (file_contents fsys q)
      else file_contents fsys q)"
  by (auto simp: file_contents_def flush_buffer_def map_of_dict_setitem
      split: option.splits fnode.splits)

lemma flush_buffer_file:
  "file_contents fsys (f_name f) = Some c \<Longrightarrow>
   fst (flush_buffer fsys f) =
     f\<lparr>f_buffer := [], f_pos := fd_pos (f_mode f) (f_pos f) c (f_buffer f)\<rparr>"
  by (auto simp: file_contents_def flush_buffer_def split: option.splits fnode.splits)

text \<open>The four ways a call of \<^verbatim>\<open>write\<close> can end, in the order the code meets them.\<close>

lemma write_json_error:
  "json_dumps (int_max_str_digits w) (or_empty_list context) = Inl e \<Longrightarrow>
   SimpleLogger_write w self channel level message context extra = (Inl e, w)"
  by (simp add: SimpleLogger_write_def or_empty_list_def Let_def)

lemma write_str_error:
  "json_dumps (int_max_str_digits w) (or_empty_list context) = Inr cjson \<Longrightarrow>
   py_str (int_max_str_digits w) (or_empty_list extra) = Inl e \<Longrightarrow>
   SimpleLogger_write w self channel level message context extra = (Inl e, w)"
  by (simp add: SimpleLogger_write_def or_empty_list_def Let_def)

lemma write_closed:
  assumes "r < length (loggers w)" "f_closed (fp_of w r)"
    and "json_dumps (int_max_str_digits w) (or_empty_list context) = Inr cjson"
    and "py_str (int_max_str_digits w) (or_empty_list extra) = Inr etext"
  shows "SimpleLogger_write w (LoggerRef r) channel level message context extra =
           (Inl closed_file_error, w)"
  using assms by (simp add: SimpleLogger_write_def or_empty_list_def Let_def fp_of_def file_write_def)

lemma write_proxy_self:
  "json_dumps (int_max_str_digits w) (or_empty_list context) = Inr cjson \<Longrightarrow>
   py_str (int_max_str_digits w) (or_empty_list extra) = Inr etext \<Longrightarrow>
   SimpleLogger_write w (ProxyRef p) channel level message context extra =
     (Inl (AttributeError ''SimpleLoggerProxy'' ''fp''), w)"
  by (simp add: SimpleLogger_write_def or_empty_list_def Let_def)

lemma write_no_logger:
  "json_dumps (int_max_str_digits w) (or_empty_list context) = Inr cjson \<Longrightarrow>
   py_str (int_max_str_digits w) (or_empty_list extra) = Inr etext \<Longrightarrow>
   \<not> r < length (loggers w) \<Longrightarrow>
   SimpleLogger_write w (LoggerRef r) channel level message context extra =
     (Inl (AttributeError ''SimpleLogger'' ''fp''), w)"
  by (simp add: SimpleLogger_write_def or_empty_list_def Let_def)

lemma write_open:
  assumes "r < length (loggers w)" "\<not> f_closed (fp_of w r)"
    and "json_dumps (int_max_str_digits w) (or_empty_list context) = Inr cjson"
    and "py_str (int_max_str_digits w) (or_empty_list extra) = Inr etext"
  shows "SimpleLogger_write w (LoggerRef r) channel level message context extra =
           (Inr (),
            w\<lparr>fs := snd (flush_buffer (fs w)
                       ((fp_of w r)\<lparr>f_buffer := f_buffer (fp_of w r) @
                          spec_line (strftime (now w)) (utf8 (py_lower channel))
                            (py_upper_utf8 level) (utf8 message) (utf8 cjson) (utf8 etext)\<rparr>)),
              loggers := (loggers w)[r := (loggers w ! r)\<lparr>self_fp :=
                  fst (flush_buffer (fs w)
                       ((fp_of w r)\<lparr>f_buffer := f_buffer (fp_of w r) @
                          spec_line (strftime (now w)) (utf8 (py_lower channel))
                            (py_upper_utf8 level) (utf8 message) (utf8 cjson) (utf8 etext)\<rparr>))\<rparr>]\<rparr>)"
  using assms
  by (simp add: SimpleLogger_write_def or_empty_list_def Let_def fp_of_def file_write_def
      file_flush_def spec_line_def)

lemma write_succeeds_iff:
  "fst (SimpleLogger_write w (LoggerRef r) channel level message context extra) = Inr () \<longleftrightarrow>
     r < length (loggers w) \<and> \<not> f_closed (fp_of w r) \<and>
     (\<exists>cjson. json_dumps (int_max_str_digits w) (or_empty_list context) = Inr cjson) \<and>
     (\<exists>etext. py_str (int_max_str_digits w) (or_empty_list extra) = Inr etext)"
proof (cases "json_dumps (int_max_str_digits w) (or_empty_list context)")
  case (Inl e)
  then show ?thesis by (simp add: write_json_error)
next
  case js: (Inr cjson)
  show ?thesis
  proof (cases "py_str (int_max_str_digits w) (or_empty_list extra)")
    case (Inl e)
    with js show ?thesis by (simp add: write_str_error)
  next
    case ex: (Inr etext)
    show ?thesis
    proof (cases "r < length (loggers w)")
      case False
      with js ex show ?thesis by (simp add: write_no_logger)
    next
      case r: True
      show ?thesis
      proof (cases "f_closed (fp_of w r)")
        case True
        with r js ex show ?thesis by (simp add: write_closed)
      next
        case False
        with r js ex show ?thesis by (simp add: write_open)
      qed
    qed
  qed
qed

text \<open>A call of \<^verbatim>\<open>write\<close> that succeeds: what the file holds afterwards, and what has become
  of the file object and of the rest of the world.\<close>

lemma write_open_effect:
  assumes r: "r < length (loggers w)" and op: "\<not> f_closed (fp_of w r)"
    and js: "json_dumps (int_max_str_digits w) (or_empty_list context) = Inr cjson"
    and ex: "py_str (int_max_str_digits w) (or_empty_list extra) = Inr etext"
    and old: "log_file w r = Some old"
  shows "fst (SimpleLogger_write w (LoggerRef r) channel level message context extra) = Inr ()"
    and "log_file (snd (SimpleLogger_write w (LoggerRef r) channel level message context extra)) r =
           Some (written w r old
                   (spec_line (strftime (now w)) (utf8 (py_lower channel)) (py_upper_utf8 level)
                      (utf8 message) (utf8 cjson) (utf8 etext)))"
    and "fp_of (snd (SimpleLogger_write w (LoggerRef r) channel level message context extra)) r =
           (fp_of w r)\<lparr>f_buffer := [],
              f_pos := fd_pos (f_mode (fp_of w r)) (f_pos (fp_of w r)) old
                (f_buffer (fp_of w r) @
                 spec_line (strftime (now w)) (utf8 (py_lower channel)) (py_upper_utf8 level)
                   (utf8 message) (utf8 cjson) (utf8 etext))\<rparr>"
proof -
  let ?E = "spec_line (strftime (now w)) (utf8 (py_lower channel)) (py_upper_utf8 level)
              (utf8 message) (utf8 cjson) (utf8 etext)"
  let ?F = "(fp_of w r)\<lparr>f_buffer := f_buffer (fp_of w r) @ ?E\<rparr>"
  let ?res = "SimpleLogger_write w (LoggerRef r) channel level message context extra"
  note eq = write_open [OF r op js ex, of channel level message]
  have c: "file_contents (fs w) (f_name ?F) = Some old"
    using old by (simp add: log_file_def)
  have fp: "fp_of (snd ?res) r = fst (flush_buffer (fs w) ?F)"
    using r by (simp add: eq fp_of_def)
  show "fst ?res = Inr ()"
    by (simp add: eq)
  show "fp_of (snd ?res) r =
          (fp_of w r)\<lparr>f_buffer := [],
             f_pos := fd_pos (f_mode (fp_of w r)) (f_pos (fp_of w r)) old
                        (f_buffer (fp_of w r) @ ?E)\<rparr>"
    unfolding fp flush_buffer_file [OF c] by simp
  have "log_file (snd ?res) r = file_contents (snd (flush_buffer (fs w) ?F)) (f_name ?F)"
    unfolding log_file_def fp fd_mode_unchanged by (simp add: eq)
  also have "\<dots> = Some (written w r old ?E)"
    using c by (simp add: flush_buffer_contents written_def)
  finally show "log_file (snd ?res) r = Some (written w r old ?E)" .
qed

lemma write_frame:
  shows "now (snd (SimpleLogger_write w self channel level message context extra)) = now w"
    and "int_max_str_digits (snd (SimpleLogger_write w self channel level message context extra))
           = int_max_str_digits w"
    and "proxies (snd (SimpleLogger_write w self channel level message context extra)) = proxies w"
    and "length (loggers (snd (SimpleLogger_write w self channel level message context extra)))
           = length (loggers w)"
  by (cases self;
      simp add: SimpleLogger_write_def Let_def file_write_def file_flush_def
        split: sum.splits)+


lemma write_keeps_at_end:
  assumes r: "r < length (loggers w)" and op: "\<not> f_closed (fp_of w r)"
    and js: "json_dumps (int_max_str_digits w) (or_empty_list context) = Inr cjson"
    and ex: "py_str (int_max_str_digits w) (or_empty_list extra) = Inr etext"
    and old: "log_file w r = Some old"
    and at_end: "writes_at_end w r"
  shows "writes_at_end (snd (SimpleLogger_write w (LoggerRef r) channel level message
                                context extra)) r"
proof (cases "f_mode (fp_of w r)")
  case ModeA
  then show ?thesis
    by (simp add: writes_at_end_def write_open_effect(3) [OF r op js ex old])
next
  case ModeW
  with at_end old have pos: "f_pos (fp_of w r) = length old"
    by (simp add: writes_at_end_def)
  show ?thesis
    unfolding writes_at_end_def write_open_effect(2,3) [OF r op js ex old] written_def
    using ModeW pos by (simp add: fd_pos_at_end)
qed

section \<open>Forking, and what a call of log comes down to\<close>

lemma fork_existing:
  assumes "r < length (loggers w)" "map_of (registry w r) c = Some p"
  shows "SimpleLogger_fork w r c = (Inr p, w)"
  using assms by (simp add: SimpleLogger_fork_def dict_contains_iff dict_getitem_Some)

lemma fork_new:
  assumes "r < length (loggers w)" "map_of (registry w r) c = None"
  shows "SimpleLogger_fork w r c =
           (Inr (length (proxies w)),
            w\<lparr>proxies := proxies w @ [\<lparr>self_logger = r, self_channel = c\<rparr>],
              loggers := (loggers w)[r := (loggers w ! r)
                \<lparr>self_proxy_registry := registry w r @ [(c, length (proxies w))]\<rparr>]\<rparr>)"
  using assms
  by (simp add: SimpleLogger_fork_def dict_contains_iff SimpleLoggerProxy_init_def
      store_registry_def registry_def dict_setitem_new dict_getitem_def map_add_def Let_def)

lemma registry_after_fork_new:
  assumes "r < length (loggers w)" "map_of (registry w r) c = None"
  shows "registry (snd (SimpleLogger_fork w r c)) r = registry w r @ [(c, length (proxies w))]"
    and "proxies (snd (SimpleLogger_fork w r c)) = proxies w @ [\<lparr>self_logger = r, self_channel = c\<rparr>]"
    and "length (loggers (snd (SimpleLogger_fork w r c))) = length (loggers w)"
  using assms by (simp_all add: fork_new registry_def)

lemma proxy_log_eq:
  "bound_proxy w p r c \<Longrightarrow>
   SimpleLoggerProxy_log w p level message context =
     SimpleLogger_write w (LoggerRef r) c level message context PNone"
  by (simp add: bound_proxy_def SimpleLoggerProxy_log_def)

lemma proxy_fork_eq:
  "bound_proxy w p r c \<Longrightarrow> SimpleLoggerProxy_fork w p n = SimpleLogger_fork w r n"
  by (simp add: bound_proxy_def SimpleLoggerProxy_fork_def)

lemma registry_ok_lookup:
  assumes "registry_ok w r" "map_of (registry w r) c = Some p"
  shows "bound_proxy w p r c"
proof -
  from assms(2) have "(c, p) \<in> set (registry w r)" by (rule map_of_SomeD)
  with assms(1) show ?thesis
    unfolding registry_ok_def bound_proxy_def list_all_iff by blast
qed

lemma fork_frame:
  assumes "r < length (loggers w)"
  shows "fs (snd (SimpleLogger_fork w r c)) = fs w"
    and "now (snd (SimpleLogger_fork w r c)) = now w"
    and "fp_of (snd (SimpleLogger_fork w r c)) r' = fp_of w r'"
    and "length (loggers (snd (SimpleLogger_fork w r c))) = length (loggers w)"
    and "log_file (snd (SimpleLogger_fork w r c)) r' = log_file w r'"
    and "int_max_str_digits (snd (SimpleLogger_fork w r c)) = int_max_str_digits w"
    and "writes_at_end (snd (SimpleLogger_fork w r c)) r' = writes_at_end w r'"
    and "written (snd (SimpleLogger_fork w r c)) r' = written w r'"
proof -
  show "fs (snd (SimpleLogger_fork w r c)) = fs w"
    and "now (snd (SimpleLogger_fork w r c)) = now w"
    and fp: "fp_of (snd (SimpleLogger_fork w r c)) r' = fp_of w r'"
    and "length (loggers (snd (SimpleLogger_fork w r c))) = length (loggers w)"
    using assms
    by (cases "map_of (registry w r) c"; simp add: fork_new fork_existing fp_of_def nth_list_update)+
  then show lf: "log_file (snd (SimpleLogger_fork w r c)) r' = log_file w r'"
    by (simp add: log_file_def)
  show "int_max_str_digits (snd (SimpleLogger_fork w r c)) = int_max_str_digits w"
    using assms by (cases "map_of (registry w r) c"; simp add: fork_new fork_existing)
  show "writes_at_end (snd (SimpleLogger_fork w r c)) r' = writes_at_end w r'"
    unfolding writes_at_end_def fp lf by (rule refl)
  show "written (snd (SimpleLogger_fork w r c)) r' = written w r'"
    by (simp add: written_def fp fun_eq_iff)
qed

lemma fork_returns:
  assumes "r < length (loggers w)" "registry_ok w r"
  shows "\<exists>p. fst (SimpleLogger_fork w r c) = Inr p \<and>
             bound_proxy (snd (SimpleLogger_fork w r c)) p r c \<and>
             map_of (registry (snd (SimpleLogger_fork w r c)) r) c = Some p"
proof (cases "map_of (registry w r) c")
  case None
  with assms(1) show ?thesis
    by (simp add: fork_new bound_proxy_def registry_def map_add_def)
next
  case (Some p)
  with assms registry_ok_lookup [OF assms(2) Some] show ?thesis
    by (simp add: fork_existing)
qed

lemma root_log_eq:
  assumes "r < length (loggers w)" "registry_ok w r"
  shows "SimpleLogger_log w r level message context =
           SimpleLogger_write (snd (SimpleLogger_fork w r DEFAULT_CHANNEL)) (LoggerRef r)
             DEFAULT_CHANNEL level message context PNone"
proof -
  obtain res w' where eq: "SimpleLogger_fork w r DEFAULT_CHANNEL = (res, w')"
    by (cases "SimpleLogger_fork w r DEFAULT_CHANNEL")
  with fork_returns [OF assms, of DEFAULT_CHANNEL] obtain p where
    p: "res = Inr p" and b: "bound_proxy w' p r DEFAULT_CHANNEL"
    by auto
  show ?thesis
    using proxy_log_eq [OF b] by (simp add: SimpleLogger_log_def eq p)
qed

lemma leveled_call_eq:
  "leveled_call lv w self message context = log_method w self (spec_level_tag lv) message context"
  by (cases lv)
    (simp_all add: SimpleLogger_emergency_def SimpleLogger_alert_def SimpleLogger_critical_def
      SimpleLogger_error_def SimpleLogger_warning_def SimpleLogger_notice_def
      SimpleLogger_info_def SimpleLogger_debug_def EMERGENCY_def ALERT_def CRITICAL_def
      ERROR_def WARNING_def NOTICE_def INFO_def DEBUG_def)

lemma log_method_eq_write:
  assumes who: "logs_to w self r c"
  shows "log_method w self level message context =
           SimpleLogger_write (case self of LoggerRef r' \<Rightarrow> snd (SimpleLogger_fork w r DEFAULT_CHANNEL)
                                | ProxyRef p \<Rightarrow> w)
             (LoggerRef r) c level message context PNone"
proof (cases self)
  case (LoggerRef r')
  with who show ?thesis by (simp add: root_log_eq)
next
  case (ProxyRef p)
  with who show ?thesis by (simp add: proxy_log_eq)
qed

text \<open>What a call of \<^verbatim>\<open>log\<close> on a logger or a proxy does, from what \<^verbatim>\<open>write\<close> does.\<close>

lemma log_method_succeeds:
  assumes who: "logs_to w self r c"
    and r: "r < length (loggers w)"
    and op: "\<not> f_closed (fp_of w r)"
    and js: "json_dumps (int_max_str_digits w) (or_empty_list context) = Inr cjson"
    and old: "log_file w r = Some old"
  shows "fst (log_method w self level message context) = Inr ()"
    and "log_file (snd (log_method w self level message context)) r =
           Some (written w r old
                   (spec_line (strftime (now w)) (utf8 (py_lower c)) (py_upper_utf8 level)
                      (utf8 message) (utf8 cjson) ''[]''))"
    and "fp_of (snd (log_method w self level message context)) r =
           (fp_of w r)\<lparr>f_buffer := [],
              f_pos := fd_pos (f_mode (fp_of w r)) (f_pos (fp_of w r)) old
                (f_buffer (fp_of w r) @
                 spec_line (strftime (now w)) (utf8 (py_lower c)) (py_upper_utf8 level)
                   (utf8 message) (utf8 cjson) ''[]'')\<rparr>"
    and "writes_at_end w r \<Longrightarrow> writes_at_end (snd (log_method w self level message context)) r"
proof -
  let ?w = "case self of LoggerRef r' \<Rightarrow> snd (SimpleLogger_fork w r DEFAULT_CHANNEL)
                | ProxyRef p \<Rightarrow> w"
  have frame: "r < length (loggers ?w)" "fp_of ?w r = fp_of w r" "now ?w = now w"
    "log_file ?w r = log_file w r" "int_max_str_digits ?w = int_max_str_digits w"
    "writes_at_end ?w r = writes_at_end w r" "written ?w r = written w r"
    using r by (cases self; simp add: fork_frame)+
  have op': "\<not> f_closed (fp_of ?w r)" using op frame by simp
  have js': "json_dumps (int_max_str_digits ?w) (or_empty_list context) = Inr cjson"
    using js frame by simp
  have ex': "py_str (int_max_str_digits ?w) (or_empty_list PNone) = Inr ''[]''"
    by (rule str_empty_list)
  have old': "log_file ?w r = Some old" using old frame by simp
  note eff = write_open_effect [OF frame(1) op' js' ex' old', of c level message]
  show "fst (log_method w self level message context) = Inr ()"
    unfolding log_method_eq_write [OF who] by (rule eff(1))
  show "log_file (snd (log_method w self level message context)) r =
           Some (written w r old
                   (spec_line (strftime (now w)) (utf8 (py_lower c)) (py_upper_utf8 level)
                      (utf8 message) (utf8 cjson) ''[]''))"
    unfolding log_method_eq_write [OF who] using eff(2) by (simp add: frame utf8_brackets)
  show "fp_of (snd (log_method w self level message context)) r =
           (fp_of w r)\<lparr>f_buffer := [],
              f_pos := fd_pos (f_mode (fp_of w r)) (f_pos (fp_of w r)) old
                (f_buffer (fp_of w r) @
                 spec_line (strftime (now w)) (utf8 (py_lower c)) (py_upper_utf8 level)
                   (utf8 message) (utf8 cjson) ''[]'')\<rparr>"
    unfolding log_method_eq_write [OF who] using eff(3) by (simp add: frame utf8_brackets)
  show "writes_at_end (snd (log_method w self level message context)) r"
    if "writes_at_end w r"
    unfolding log_method_eq_write [OF who]
    using write_keeps_at_end [OF frame(1) op' js' ex' old', of c level message] that
    by (simp add: frame)
qed

lemma log_method_success_cases:
  assumes who: "logs_to w self r c"
    and ok: "fst (log_method w self level message context) = Inr ()"
  shows "r < length (loggers w) \<and> \<not> f_closed (fp_of w r) \<and>
         (\<exists>cjson. json_dumps (int_max_str_digits w) (or_empty_list context) = Inr cjson)"
proof -
  let ?w = "case self of LoggerRef r' \<Rightarrow> snd (SimpleLogger_fork w r DEFAULT_CHANNEL)
                | ProxyRef p \<Rightarrow> w"
  from ok have "fst (SimpleLogger_write ?w (LoggerRef r) c level message context PNone) = Inr ()"
    by (simp only: log_method_eq_write [OF who])
  then have "r < length (loggers ?w) \<and> \<not> f_closed (fp_of ?w r) \<and>
     (\<exists>cjson. json_dumps (int_max_str_digits ?w) (or_empty_list context) = Inr cjson) \<and>
     (\<exists>etext. py_str (int_max_str_digits ?w) (or_empty_list PNone) = Inr etext)"
    by (rule write_succeeds_iff [THEN iffD1])
  then have *: "r < length (loggers ?w)" "\<not> f_closed (fp_of ?w r)"
    "\<exists>cjson. json_dumps (int_max_str_digits ?w) (or_empty_list context) = Inr cjson"
    by blast+
  show ?thesis
  proof (cases self)
    case (LoggerRef r')
    with who have r: "r < length (loggers w)" by simp
    from * show ?thesis by (simp add: LoggerRef fork_frame [OF r] r)
  next
    case (ProxyRef p)
    with * show ?thesis by simp
  qed
qed

lemma log_method_line:
  assumes who: "logs_to w self r c"
    and ok: "log_method w self level message context = (Inr u, w1)"
    and old: "log_file w r = Some old"
  shows "\<exists>cjson. json_dumps (int_max_str_digits w) (or_empty_list context) = Inr cjson \<and>
           log_file w1 r =
             Some (written w r old
                     (spec_line (strftime (now w)) (utf8 (py_lower c)) (py_upper_utf8 level)
                        (utf8 message) (utf8 cjson) ''[]''))"
proof -
  from ok have f: "fst (log_method w self level message context) = Inr ()"
    and w1: "w1 = snd (log_method w self level message context)" by simp_all
  from log_method_success_cases [OF who f] obtain cjson where
    r: "r < length (loggers w)" and op: "\<not> f_closed (fp_of w r)"
    and js: "json_dumps (int_max_str_digits w) (or_empty_list context) = Inr cjson" by blast
  from log_method_succeeds(2) [OF who r op js old] js show ?thesis
    unfolding w1 by blast
qed

lemma log_method_json_error:
  assumes who: "logs_to w self r c"
    and js: "json_dumps (int_max_str_digits w) (or_empty_list context) = Inl e"
  shows "fst (log_method w self level message context) = Inl e"
    and "fs (snd (log_method w self level message context)) = fs w"
proof -
  let ?w = "case self of LoggerRef r' \<Rightarrow> snd (SimpleLogger_fork w r DEFAULT_CHANNEL)
                | ProxyRef p \<Rightarrow> w"
  have frame: "fs ?w = fs w" "int_max_str_digits ?w = int_max_str_digits w"
    using who by (cases self; simp add: fork_frame)+
  have js': "json_dumps (int_max_str_digits ?w) (or_empty_list context) = Inl e"
    using js frame by simp
  show "fst (log_method w self level message context) = Inl e"
    unfolding log_method_eq_write [OF who] by (simp add: write_json_error [OF js'])
  show "fs (snd (log_method w self level message context)) = fs w"
    unfolding log_method_eq_write [OF who] by (simp add: write_json_error [OF js'] frame)
qed

lemma log_method_closed:
  assumes who: "logs_to w self r c"
    and js: "json_dumps (int_max_str_digits w) (or_empty_list context) = Inr cjson"
    and r: "r < length (loggers w)" and cl: "f_closed (fp_of w r)"
  shows "fst (log_method w self level message context) = Inl closed_file_error"
    and "fs (snd (log_method w self level message context)) = fs w"
proof -
  let ?w = "case self of LoggerRef r' \<Rightarrow> snd (SimpleLogger_fork w r DEFAULT_CHANNEL)
                | ProxyRef p \<Rightarrow> w"
  have frame: "r < length (loggers ?w)" "f_closed (fp_of ?w r)" "fs ?w = fs w"
    "int_max_str_digits ?w = int_max_str_digits w"
    using r cl by (cases self; simp add: fork_frame)+
  have js': "json_dumps (int_max_str_digits ?w) (or_empty_list context) = Inr cjson"
    using js frame by simp
  note c = write_closed [OF frame(1,2) js' str_empty_list, of c level message]
  show "fst (log_method w self level message context) = Inl closed_file_error"
    unfolding log_method_eq_write [OF who] by (simp add: c)
  show "fs (snd (log_method w self level message context)) = fs w"
    unfolding log_method_eq_write [OF who] by (simp add: c frame(3))
qed

section \<open>Construction\<close>

lemma py_open_cases:
  "map_of fsys p = Some (File True old) \<Longrightarrow>
     py_open fsys p (if os_path_exists fsys p then ModeA else ModeW) =
       (Inr \<lparr>f_name = p, f_mode = ModeA, f_buffer = [], f_pos = length old,
             f_closed = False\<rparr>, fsys)"
  "map_of fsys p = Some (Absent True) \<Longrightarrow>
     py_open fsys p (if os_path_exists fsys p then ModeA else ModeW) =
       (Inr \<lparr>f_name = p, f_mode = ModeW, f_buffer = [], f_pos = 0, f_closed = False\<rparr>,
        dict_setitem p (File True []) fsys)"
  "map_of fsys p = Some (File False old) \<Longrightarrow>
     py_open fsys p (if os_path_exists fsys p then ModeA else ModeW) = (Inl (PermissionError p), fsys)"
  "map_of fsys p = Some (Absent False) \<Longrightarrow>
     py_open fsys p (if os_path_exists fsys p then ModeA else ModeW) = (Inl (PermissionError p), fsys)"
  "map_of fsys p = None \<Longrightarrow>
     py_open fsys p (if os_path_exists fsys p then ModeA else ModeW) = (Inl (FileNotFoundError p), fsys)"
  by (simp_all add: py_open_def os_path_exists_def)

lemma init_ok:
  assumes "py_open (fs w) filename (if os_path_exists (fs w) filename then ModeA else ModeW)
             = (Inr f, fs1)"
  shows "SimpleLogger_init w filename =
           (Inr (length (loggers w)),
            w\<lparr>fs := fs1,
              loggers := loggers w @
                [\<lparr>self_fp = f, self_proxy_registry = [(''app'', length (proxies w))]\<rparr>],
              proxies := proxies w @
                [\<lparr>self_logger = length (loggers w), self_channel = ''app''\<rparr>]\<rparr>)"
  using assms
  by (simp add: SimpleLogger_init_def SimpleLogger_fork_def DEFAULT_CHANNEL_def
      dict_contains_def registry_def SimpleLoggerProxy_init_def store_registry_def
      dict_getitem_def Let_def)

lemma init_fail:
  assumes "py_open (fs w) filename (if os_path_exists (fs w) filename then ModeA else ModeW)
             = (Inl e, fs1)"
  shows "SimpleLogger_init w filename = (Inl e, w)"
  using assms by (simp add: SimpleLogger_init_def Let_def)

lemma init_success_cases:
  assumes "SimpleLogger_init w filename = (Inr r, w1)"
  shows "\<exists>f fs1. py_open (fs w) filename
                    (if os_path_exists (fs w) filename then ModeA else ModeW) = (Inr f, fs1) \<and>
           r = length (loggers w) \<and>
           w1 = w\<lparr>fs := fs1,
                  loggers := loggers w @
                    [\<lparr>self_fp = f, self_proxy_registry = [(''app'', length (proxies w))]\<rparr>],
                  proxies := proxies w @
                    [\<lparr>self_logger = length (loggers w), self_channel = ''app''\<rparr>]\<rparr>"
proof -
  obtain res fs1 where op: "py_open (fs w) filename
      (if os_path_exists (fs w) filename then ModeA else ModeW) = (res, fs1)"
    by (cases "py_open (fs w) filename (if os_path_exists (fs w) filename then ModeA else ModeW)")
  show ?thesis
  proof (cases res)
    case (Inl e)
    with op assms init_fail [of w filename e fs1] show ?thesis by simp
  next
    case (Inr f)
    with op assms init_ok [of w filename f fs1] show ?thesis by auto
  qed
qed

lemma init_registry:
  assumes "SimpleLogger_init w filename = (Inr r, w1)"
  shows "r = length (loggers w)" "r < length (loggers w1)"
    "registry w1 r = [(''app'', length (proxies w))]"
    "bound_proxy w1 (length (proxies w)) r ''app''"
    "registry_ok w1 r"
  using init_success_cases [OF assms]
  by (auto simp: registry_def bound_proxy_def registry_ok_def)

lemma init_world_facts:
  assumes "SimpleLogger_init w filename = (Inr r, w1)"
  shows "now w1 = now w"
    and "logs_to w1 (LoggerRef r) r ''app''"
    and "int_max_str_digits w1 = int_max_str_digits w"
  using init_registry [OF assms] init_success_cases [OF assms]
  by (auto simp: DEFAULT_CHANNEL_def)


section \<open>The registries stay in order\<close>

text \<open>Construction, \<^verbatim>\<open>fork\<close>, \<^verbatim>\<open>write\<close> and \<^verbatim>\<open>log\<close> keep every registry in order.\<close>

lemma fork_preserves_registry_ok:
  assumes r: "r < length (loggers w)" and ok: "registry_ok w r'"
  shows "registry_ok (snd (SimpleLogger_fork w r c)) r'"
proof (cases "map_of (registry w r) c")
  case None
  have old: "\<And>k q. (k, q) \<in> set (registry w r') \<Longrightarrow>
               q < length (proxies w) \<and> proxies w ! q = \<lparr>self_logger = r', self_channel = k\<rparr>"
    using ok unfolding registry_ok_def list_all_iff by blast
  show ?thesis
  proof (cases "r' = r")
    case True
    with r None old show ?thesis
      unfolding registry_ok_def list_all_iff
      by (auto simp: fork_new registry_def nth_append)
  next
    case False
    with r None old show ?thesis
      unfolding registry_ok_def list_all_iff
      by (auto simp: fork_new registry_def nth_append)
  qed
next
  case (Some p)
  with r ok show ?thesis by (simp add: fork_existing)
qed

lemma write_registry:
  "registry (snd (SimpleLogger_write w self channel level message context extra)) r' =
     registry w r'"
proof (cases self)
  case (LoggerRef r)
  show ?thesis
  proof (cases "r < length (loggers w)")
    case True
    with LoggerRef show ?thesis
      by (cases "r' = r")
        (auto simp: SimpleLogger_write_def Let_def file_write_def file_flush_def registry_def
          split: sum.splits)
  next
    case False
    with LoggerRef show ?thesis
      by (auto simp: SimpleLogger_write_def Let_def split: sum.splits)
  qed
next
  case (ProxyRef p)
  then show ?thesis
    by (auto simp: SimpleLogger_write_def Let_def split: sum.splits)
qed

lemma write_preserves_registry_ok:
  assumes "registry_ok w r'"
  shows "registry_ok (snd (SimpleLogger_write w self channel level message context extra)) r'"
  using assms unfolding registry_ok_def by (simp add: write_registry write_frame)

lemma init_preserves_registry_ok:
  assumes init: "SimpleLogger_init w filename = (Inr r, w1)"
    and r': "r' < length (loggers w)" and ok: "registry_ok w r'"
  shows "registry_ok w1 r'"
proof -
  have old1: "q < length (proxies w)"
    and old2: "proxies w ! q = \<lparr>self_logger = r', self_channel = k\<rparr>"
    if "(k, q) \<in> set (self_proxy_registry (loggers w ! r'))" for k q
    using ok that unfolding registry_ok_def registry_def list_all_iff by blast+
  from init_success_cases [OF init] r' show ?thesis
    unfolding registry_ok_def list_all_iff
    by (auto simp: registry_def nth_append less_Suc_eq old2 dest: old1)
qed

lemma log_method_preserves_registry_ok:
  assumes who: "logs_to w self r c" and r: "r < length (loggers w)"
    and ok: "registry_ok w r'"
  shows "registry_ok (snd (log_method w self level message context)) r'"
  unfolding log_method_eq_write [OF who]
  using ok r
  by (cases self) (simp_all add: write_preserves_registry_ok fork_preserves_registry_ok)


section \<open>Teardown\<close>

text \<open>The first step of the loop in \<^verbatim>\<open>__del__\<close> deletes a key, and the next look at the
  iterator finds the size changed.\<close>

lemma registry_store_registry:
  "r < length (loggers w) \<Longrightarrow> registry (store_registry w r reg) r = reg"
  by (simp add: registry_def store_registry_def)

lemma del_loop_after_change:
  "length (registry w r) \<noteq> used \<Longrightarrow> del_loop w r used ks = (Inl changed_size_error, w)"
  by (cases ks) simp_all

lemma del_loop_first_key:
  assumes r: "r < length (loggers w)" and reg: "registry w r = (k, p) # rest"
  shows "del_loop w r (length (registry w r)) (k # ks) =
           (Inl changed_size_error, store_registry w r (filter (\<lambda>kv. fst kv \<noteq> k) rest))"
proof -
  let ?reg = "filter (\<lambda>kv. fst kv \<noteq> k) rest"
  have del: "dict_delitem k (registry w r) = Inr ?reg"
    by (simp add: dict_delitem_def dict_contains_def reg)
  have "length ?reg < Suc (length rest)"
    by (simp add: le_imp_less_Suc)
  then have "length (registry (store_registry w r ?reg) r) \<noteq> length (registry w r)"
    by (simp add: registry_store_registry [OF r] reg)
  from del_loop_after_change [OF this] del show ?thesis
    by simp
qed

lemma del_on_registered_channels:
  assumes r: "r < length (loggers w)" and reg: "registry w r = (k, p) # rest"
  shows "fst (SimpleLogger_del w r) = Inl changed_size_error"
    and "registry (snd (SimpleLogger_del w r)) r = filter (\<lambda>kv. fst kv \<noteq> k) rest"
    and "f_closed (fp_of (snd (SimpleLogger_del w r)) r)"
proof -
  obtain f1 fs1 where c: "(if \<not> f_closed (self_fp (loggers w ! r))
         then file_close (fs w) (self_fp (loggers w ! r))
         else (self_fp (loggers w ! r), fs w)) = (f1, fs1)"
    by (cases "if \<not> f_closed (self_fp (loggers w ! r))
         then file_close (fs w) (self_fp (loggers w ! r))
         else (self_fp (loggers w ! r), fs w)")
  then have closed: "f_closed f1"
    by (auto simp: file_close_def split: if_splits)
  let ?w1 = "store_fp (w\<lparr>fs := fs1\<rparr>) (LoggerRef r) f1"
  have r1: "r < length (loggers ?w1)" and reg1: "registry ?w1 r = (k, p) # rest"
    using r reg by (simp_all add: registry_def)
  have "SimpleLogger_del w r =
          del_loop ?w1 r (length (registry ?w1 r)) (map fst (registry ?w1 r))"
    using r c by (simp add: SimpleLogger_del_def Let_def)
  also have "\<dots> = del_loop ?w1 r (length (registry ?w1 r)) (k # map fst rest)"
    by (simp only: reg1 list.map fst_conv)
  also have "\<dots> =
      (Inl changed_size_error, store_registry ?w1 r (filter (\<lambda>kv. fst kv \<noteq> k) rest))"
    by (rule del_loop_first_key [OF r1 reg1])
  finally have eq: "SimpleLogger_del w r =
      (Inl changed_size_error, store_registry ?w1 r (filter (\<lambda>kv. fst kv \<noteq> k) rest))" .
  show "fst (SimpleLogger_del w r) = Inl changed_size_error"
    by (simp add: eq)
  show "registry (snd (SimpleLogger_del w r)) r = filter (\<lambda>kv. fst kv \<noteq> k) rest"
    using r by (simp add: eq registry_def store_registry_def)
  show "f_closed (fp_of (snd (SimpleLogger_del w r)) r)"
    using r closed by (simp add: eq fp_of_def store_registry_def)
qed


section \<open>The example worlds are reached by the code\<close>

lemma strftime_example: "strftime example_clock = ''2026-11-03 09:05:07''"
  by (simp add: strftime_def example_clock_def zfill_def show_nat.simps digit_char_def)

text \<open>The two bytes of \<^verbatim>\<open>U+00E9\<close> in UTF-8.\<close>

lemma e_acute_bytes: "char_of (195::nat) = CHR 0xC3" "char_of (169::nat) = CHR 0xA9"
  by (rule injD [OF inj_of_char [where ?'a = nat]], simp)+

lemmas text_eval = e_acute_bytes
  strftime_example py_lower_def py_upper_utf8_def lower_char_def upper_char_utf8_def
  utf8_def utf8_char_def ascii_uppercase_def ascii_lowercase_def latin1_uppercase_def
  latin1_lowercase_def json_dumps_def json_string_def json_escape_char_def int_to_str_def
  show_nat.simps digit_char_def hex_char_def repr_string_def repr_char_def printable_def
  spec_line_def or_empty_list_def dquote_def squote_def backslash_def newline_def

lemmas world_eval =
  logger_world_def billing_world_def closed_world_def example_world_def example_fs_def
  example_fp_def old_log_world_def registry_def fp_of_def log_file_def file_contents_def
  bound_proxy_def registry_ok_def writes_at_end_def written_def

lemmas code_eval =
  SimpleLogger_write_def SimpleLogger_fork_def SimpleLogger_log_def
  SimpleLoggerProxy_log_def SimpleLoggerProxy_fork_def SimpleLoggerProxy_init_def
  SimpleLogger_init_def SimpleLogger_del_def
  store_registry_def file_write_def file_flush_def flush_buffer_def file_close_def
  fd_write_def fd_pos_def py_open_def os_path_exists_def dict_contains_def dict_getitem_def
  dict_delitem_def DEFAULT_CHANNEL_def Let_def

lemma init_example: "SimpleLogger_init example_world ''/tmp/x.log'' = (Inr 0, logger_world)"
  by (simp add: code_eval world_eval)

lemma fork_example: "SimpleLogger_fork logger_world 0 ''billing'' = (Inr 1, billing_world)"
  by (simp add: code_eval world_eval)

lemma init_old_log_example:
  "SimpleLogger_init example_world ''/var/log/old.log'' = (Inr 0, old_log_world)"
  by (simp add: code_eval world_eval)

lemma close_example: "caller_closes_fp logger_world 0 = closed_world"
  by (simp add: caller_closes_fp_def code_eval world_eval)




lemma json_kv: "json_dumps lim (or_empty_list (PDict [(''k'', PStr ''v'')])) =
    Inr (''{'' @ [dquote] @ ''k'' @ [dquote] @ '': '' @ [dquote] @ ''v'' @ [dquote] @ ''}'')"
  by (simp add: text_eval)

lemma str_kv: "py_str lim (or_empty_list (PDict [(''k'', PStr ''v'')])) =
    Inr (''{'' @ [squote] @ ''k'' @ [squote] @ '': '' @ [squote] @ ''v'' @ [squote] @ ''}'')"
  by (simp add: text_eval Let_def)

lemma int_to_str_power: "0 < lim \<Longrightarrow> int_to_str lim (10 ^ lim) = Inl (int_digits_error lim)"
  by (rule int_to_str_too_long) (simp_all only: power_abs abs_numeral order_refl)

lemma huge_int_too_long: "int_to_str 4300 huge_int = Inl (int_digits_error 4300)"
  unfolding huge_int_def by (rule int_to_str_power) (rule zero_less_numeral)

section \<open>The claims\<close>




text \<open>
  C2. \<^verbatim>\<open>fork(c)\<close> on a Root Logger \<open>r\<close> never fails, and calling it again with the same
  name returns the identical proxy object (the same index in the store of proxies) and
  changes nothing. When \<open>c\<close> was not registered, the first call creates a new proxy
  object bound to \<open>r\<close> and \<open>c\<close> and registers it under the key \<open>c\<close> exactly as given,
  leaving every entry under another key (such as the same name in another case)
  alone; when it was registered, the call changes nothing. In every later world where
  \<open>c\<close> is still registered to that proxy, \<^verbatim>\<open>fork(c)\<close> returns it again.
\<close>

theorem fork_twice_same_proxy:
  assumes r: "r < length (loggers w)"
    and first: "SimpleLogger_fork w r c = (res, w1)"
  shows "\<exists>p. res = Inr p \<and>
           SimpleLogger_fork w1 r c = (Inr p, w1) \<and>
           map_of (registry w1 r) c = Some p \<and>
           (if dict_contains (registry w r) c then w1 = w
            else p = length (proxies w) \<and>
                 proxies w1 = proxies w @ [\<lparr>self_logger = r, self_channel = c\<rparr>] \<and>
                 registry w1 r = registry w r @ [(c, p)]) \<and>
           (\<forall>c'. c' \<noteq> c \<longrightarrow> map_of (registry w1 r) c' = map_of (registry w r) c') \<and>
           (\<forall>w'. r < length (loggers w') \<and> map_of (registry w' r) c = Some p \<longrightarrow>
                 SimpleLogger_fork w' r c = (Inr p, w'))"
proof (cases "map_of (registry w r) c")
  case None
  let ?p = "length (proxies w)"
  from first fork_new [OF r None] have res: "res = Inr ?p"
    and w1: "w1 = snd (SimpleLogger_fork w r c)" by simp_all
  have reg: "registry w1 r = registry w r @ [(c, ?p)]"
    and prox: "proxies w1 = proxies w @ [\<lparr>self_logger = r, self_channel = c\<rparr>]"
    and len: "r < length (loggers w1)"
    unfolding w1 using registry_after_fork_new [OF r None] r by simp_all
  have look: "map_of (registry w1 r) c = Some ?p"
    using None by (simp add: reg map_add_def)
  have others: "map_of (registry w1 r) c' = map_of (registry w r) c'" if "c' \<noteq> c" for c'
    using that by (simp add: reg map_add_def split: option.splits)
  from fork_existing [OF len look] res reg prox look others None show ?thesis
    by (simp add: dict_contains_iff fork_existing)
next
  case (Some p)
  from first fork_existing [OF r Some] have "res = Inr p" "w1 = w" by simp_all
  with fork_existing [OF r Some] Some show ?thesis
    by (simp add: dict_contains_iff fork_existing)
qed

theorem fork_twice_same_proxy_witness:
  "0 < length (loggers logger_world) \<and>
   SimpleLogger_fork logger_world 0 ''billing'' = (Inr 1, billing_world) \<and>
   SimpleLogger_fork billing_world 0 ''billing'' = (Inr 1, billing_world) \<and>
   map_of (registry billing_world 0) ''billing'' = Some 1 \<and>
   map_of (registry billing_world 0) ''Billing'' = None \<and>
   proxies billing_world ! 1 = \<lparr>self_logger = 0, self_channel = ''billing''\<rparr>"
proof -
  have r: "0 < length (loggers logger_world)"
    by (simp add: logger_world_def)
  from fork_twice_same_proxy [OF r fork_example]
  have "SimpleLogger_fork billing_world 0 ''billing'' = (Inr 1, billing_world) \<and>
        map_of (registry billing_world 0) ''billing'' = Some 1"
    by auto
  moreover have "map_of (registry billing_world 0) ''Billing'' = None"
    "proxies billing_world ! 1 = \<lparr>self_logger = 0, self_channel = ''billing''\<rparr>"
    by (simp_all add: registry_def billing_world_def)
  ultimately show ?thesis
    using r fork_example by simp
qed


text \<open>
  C6. Right after construction the registry of a Root Logger holds exactly the channel
  \<^verbatim>\<open>app\<close>, registered to a proxy bound to this logger and that name; \<^verbatim>\<open>log\<close> and every
  leveled method called on the logger itself are then \<^verbatim>\<open>write\<close> with the channel \<^verbatim>\<open>app\<close>.
  The same holds in every later world in which the logger's registry is in order (which
  \<^verbatim>\<open>fork\<close> and \<^verbatim>\<open>write\<close> preserve): the call goes through \<^verbatim>\<open>fork('app')\<close>, which changes
  nothing while \<^verbatim>\<open>app\<close> is registered, and then is \<^verbatim>\<open>write\<close> with the channel \<^verbatim>\<open>app\<close>.
\<close>

theorem default_channel_app:
  assumes init: "SimpleLogger_init w filename = (Inr r, w1)"
  shows "dict_contains (registry w1 r) ''app'' \<and>
         registry w1 r = [(''app'', length (proxies w))] \<and>
         bound_proxy w1 (length (proxies w)) r ''app'' \<and>
         SimpleLogger_log w1 r level message context =
           SimpleLogger_write w1 (LoggerRef r) ''app'' level message context PNone \<and>
         leveled_call lv w1 (LoggerRef r) message context =
           SimpleLogger_write w1 (LoggerRef r) ''app'' (spec_level_tag lv) message context PNone \<and>
         (\<forall>w'. r < length (loggers w') \<and> registry_ok w' r \<longrightarrow>
            SimpleLogger_log w' r level message context =
              SimpleLogger_write (snd (SimpleLogger_fork w' r ''app'')) (LoggerRef r) ''app''
                level message context PNone \<and>
            leveled_call lv w' (LoggerRef r) message context =
              SimpleLogger_write (snd (SimpleLogger_fork w' r ''app'')) (LoggerRef r) ''app''
                (spec_level_tag lv) message context PNone \<and>
            (dict_contains (registry w' r) ''app'' \<longrightarrow> snd (SimpleLogger_fork w' r ''app'') = w'))"
proof -
  note facts = init_registry [OF init]
  have look: "map_of (registry w1 r) ''app'' = Some (length (proxies w))"
    by (simp add: facts(3))
  have same: "snd (SimpleLogger_fork w1 r ''app'') = w1"
    by (simp add: fork_existing [OF facts(2) look])
  have general: "SimpleLogger_log w' r level message context =
              SimpleLogger_write (snd (SimpleLogger_fork w' r ''app'')) (LoggerRef r) ''app''
                level message context PNone \<and>
            leveled_call lv w' (LoggerRef r) message context =
              SimpleLogger_write (snd (SimpleLogger_fork w' r ''app'')) (LoggerRef r) ''app''
                (spec_level_tag lv) message context PNone \<and>
            (dict_contains (registry w' r) ''app'' \<longrightarrow> snd (SimpleLogger_fork w' r ''app'') = w')"
    if "r < length (loggers w')" "registry_ok w' r" for w' level
  proof -
    have "snd (SimpleLogger_fork w' r ''app'') = w'" if "dict_contains (registry w' r) ''app''"
      using that \<open>r < length (loggers w')\<close>
      by (auto simp: dict_contains_iff fork_existing)
    then show ?thesis
      using root_log_eq [OF that] by (simp add: leveled_call_eq DEFAULT_CHANNEL_def)
  qed
  from general [OF facts(2) facts(5)] general facts look show ?thesis
    by (simp add: same dict_contains_iff)
qed

theorem default_channel_app_witness:
  "SimpleLogger_init example_world ''/tmp/x.log'' = (Inr 0, logger_world) \<and>
   dict_contains (registry logger_world 0) ''app'' \<and>
   SimpleLogger_log logger_world 0 ''debug'' ''hello'' PNone =
     SimpleLogger_write logger_world (LoggerRef 0) ''app'' ''debug'' ''hello'' PNone PNone \<and>
   registry_ok billing_world 0 \<and>
   leveled_call Info billing_world (LoggerRef 0) ''hello'' PNone =
     SimpleLogger_write billing_world (LoggerRef 0) ''app'' ''INFO'' ''hello'' PNone PNone"
proof -
  note t = default_channel_app [OF init_example, of "''debug''" "''hello''" PNone Info]
  have ok: "0 < length (loggers billing_world)" "registry_ok billing_world 0"
    "dict_contains (registry billing_world 0) ''app''"
    by (simp_all add: world_eval dict_contains_def)
  have 1: "dict_contains (registry logger_world 0) ''app''"
    by (rule t [THEN conjunct1])
  have 2: "SimpleLogger_log logger_world 0 ''debug'' ''hello'' PNone =
     SimpleLogger_write logger_world (LoggerRef 0) ''app'' ''debug'' ''hello'' PNone PNone"
    by (rule t [THEN conjunct2, THEN conjunct2, THEN conjunct2, THEN conjunct1])
  from t ok have 3: "leveled_call Info billing_world (LoggerRef 0) ''hello'' PNone =
     SimpleLogger_write billing_world (LoggerRef 0) ''app'' ''INFO'' ''hello'' PNone PNone"
    by simp
  from init_example 1 2 ok(2) 3 show ?thesis
    by (intro conjI)
qed


text \<open>
  C9. The claim is that teardown of a Root Logger closes the file, removes every entry of
  the registry and completes without error, and that a proxy's teardown does nothing. The
  code closes the file, but its loop deletes from the registry it is iterating over: it
  removes the first entry and then raises \<^verbatim>\<open>RuntimeError\<close>. On the logger with the channels
  \<^verbatim>\<open>app\<close> and \<^verbatim>\<open>billing\<close> the entry \<^verbatim>\<open>billing\<close> stays registered; on the logger with \<^verbatim>\<open>app\<close>
  alone the registry is emptied and the error is raised all the same. The proxy's
  teardown does nothing, as claimed. The same happens on every logger whose registry is not empty
  (\<open>del_on_registered_channels\<close>).
\<close>

theorem teardown_raises_and_keeps_entries:
  "SimpleLogger_del billing_world 0 =
     (Inl (RuntimeError ''dictionary changed size during iteration''),
      billing_world\<lparr>loggers := [\<lparr>self_fp = example_fp\<lparr>f_closed := True\<rparr>,
                                  self_proxy_registry = [(''billing'', 1)]\<rparr>]\<rparr>) \<and>
   SimpleLogger_del logger_world 0 =
     (Inl (RuntimeError ''dictionary changed size during iteration''),
      logger_world\<lparr>loggers := [\<lparr>self_fp = example_fp\<lparr>f_closed := True\<rparr>,
                                 self_proxy_registry = []\<rparr>]\<rparr>) \<and>
   SimpleLoggerProxy_del billing_world 1 = (Inr (), billing_world)"
  by (simp add: SimpleLoggerProxy_del_def changed_size_error_def code_eval world_eval)


end
